theory Spec2Isabelle
  imports Complex_Main
begin

section \<open>The sensor daemon of dagster/\_daemon/sensor.py\<close>

text \<open>
  A shallow embedding of the tick evaluation engine of \<^verbatim>\<open>dagster/_daemon/sensor.py\<close>.
  The \<^verbatim>\<open>DagsterInstance\<close> (the store of instigator states, ticks, runs and
  dynamic partitions) is a record that every operation takes and returns; an exception is a
  value of \<open>py_exception\<close>; the wall clock is an argument wherever the source calls
  \<^verbatim>\<open>pendulum.now\<close>. Timestamps are Python floats in the source and exact reals here.
  The generator's \<^verbatim>\<open>yield\<close> points (heartbeats) carry no state and are left out, and
  the debug crash flags are taken as unset.
\<close>

subsection \<open>Python values\<close>

datatype py_exception =
  KeyboardInterrupt | GeneratorExit | BaseException string | Exception string

text \<open>\<^verbatim>\<open>except Exception\<close> catches neither \<^verbatim>\<open>KeyboardInterrupt\<close> nor
  \<^verbatim>\<open>GeneratorExit\<close> nor any other exception that derives from
  \<^verbatim>\<open>BaseException\<close> only (\<^verbatim>\<open>SystemExit\<close>).\<close>

fun is_Exception :: "py_exception \<Rightarrow> bool" where
  "is_Exception (Exception m) = True"
| "is_Exception (BaseException m) = False"
| "is_Exception KeyboardInterrupt = False"
| "is_Exception GeneratorExit = False"

datatype serializable_error_info = SerializableErrorInfo py_exception

definition serializable_error_info_from_exc_info :: "py_exception \<Rightarrow> serializable_error_info" where
  "serializable_error_info_from_exc_info e = SerializableErrorInfo e"

text \<open>Truthiness: \<^verbatim>\<open>None\<close>, the empty string and the number zero are false.\<close>

fun truthy_str :: "string option \<Rightarrow> bool" where
  "truthy_str None = False"
| "truthy_str (Some s) = (s \<noteq> [])"

fun truthy_num :: "'a::zero option \<Rightarrow> bool" where
  "truthy_num None = False"
| "truthy_num (Some x) = (x \<noteq> 0)"

text \<open>\<^verbatim>\<open>x or 0\<close> on an optional number.\<close>

fun or_zero :: "'a::zero option \<Rightarrow> 'a" where
  "or_zero None = 0"
| "or_zero (Some x) = x"

subsection \<open>Data model\<close>

type_synonym timestamp = real

type_synonym tags = "string \<rightharpoonup> string"

record sensor_instigator_data =
  last_tick_timestamp :: "timestamp option"
  last_run_key :: "string option"
  min_interval :: "int option"
  cursor :: "string option"
  last_tick_start_timestamp :: "timestamp option"

text \<open>The state of a sensor carries sensor data or none (\<^verbatim>\<open>_sensor_instigator_data\<close>
  fails on any other kind of data, which the state of a sensor never holds).\<close>

record instigator_state =
  instigator_origin_id :: string
  state_selector_id :: string
  instigator_name :: string
  instigator_data :: "sensor_instigator_data option"

datatype tick_status = STARTED | SKIPPED | SUCCESS | FAILURE

datatype run_status =
  RUN_QUEUED | RUN_NOT_STARTED | RUN_MANAGED | RUN_STARTING | RUN_STARTED
| RUN_SUCCESS | RUN_FAILURE | RUN_CANCELING | RUN_CANCELED

record dagster_run =
  run_id :: nat
  run_job_name :: string
  run_status :: run_status
  run_tags :: tags
  external_job_origin :: "string option"

text \<open>\<open>external_job_origin\<close> is the selector id of the repository origin of the run's job
  origin, \<open>None\<close> for a run with no recorded origin. Run ids stand for the store's uuids.\<close>

record dynamic_partitions_request_result =
  result_partitions_def_name :: string
  added_partitions :: "string list option"
  deleted_partitions :: "string list option"
  skipped_partitions :: "string list"

record tick =
  tick_id :: nat
  tick_origin_id :: string
  tick_instigator_name :: string
  tick_selector_id :: string
  tick_status :: tick_status
  tick_timestamp :: timestamp
  tick_cursor :: "string option"
  run_ids :: "nat list"
  run_keys :: "string list"
  skip_reason :: "string option"
  error :: "serializable_error_info option"
  log_key :: "string list option"
  origin_run_ids :: "nat list"
  dynamic_partitions_request_results :: "dynamic_partitions_request_result list"

record external_job =
  job_name :: string
  job_tags :: tags

text \<open>\<open>job_tags\<close> is \<^verbatim>\<open>validate_tags(external_job.tags or {}, allow_reserved_tags=False)\<close>.
  \<open>target_job\<close> below is \<^verbatim>\<open>get_target_data\<close> followed by
  \<^verbatim>\<open>code_location.get_external_job\<close>: \<open>None\<close> where the sensor has no such target.\<close>

record external_sensor =
  sensor_name :: string
  selector_id :: string
  external_origin_id :: string
  repository_selector_id :: string
  min_interval_seconds :: "int option"
  target_job :: "string option \<Rightarrow> external_job option"

record run_request =
  run_key :: "string option"
  request_tags :: tags
  request_job_name :: "string option"
  asset_selection :: "string list option"
  stale_assets_only :: bool

datatype dynamic_partitions_request =
  AddDynamicPartitionsRequest string "string list"
| DeleteDynamicPartitionsRequest string "string list"

record dagster_run_reaction =
  reaction_run :: "dagster_run option"
  reaction_error :: "serializable_error_info option"

record sensor_execution_data =
  run_requests :: "run_request list"
  skip_message :: "string option"
  data_cursor :: "string option"
  dagster_run_reactions :: "dagster_run_reaction list"
  captured_log_key :: "string list option"
  dynamic_partitions_requests :: "dynamic_partitions_request list"

subsection \<open>The instance\<close>

text \<open>Tick storage is written and never read by the engine: it is the journal of the calls
  made on it, in order, together with the errors the daemon logs.\<close>

datatype store_call =
  CreateTick tick
| UpdateTick tick
| PurgeTicks string string timestamp "tick_status list"
| LogError string

record dagster_instance =
  instigator_states :: "string \<times> string \<rightharpoonup> instigator_state"
  runs :: "dagster_run list"
  dynamic_partitions :: "string \<Rightarrow> string set"
  next_run_id :: nat
  next_tick_id :: nat
  journal :: "store_call list"

definition get_instigator_state :: "dagster_instance \<Rightarrow> string \<Rightarrow> string \<Rightarrow> instigator_state option" where
  "get_instigator_state inst origin_id sel_id = instigator_states inst (origin_id, sel_id)"

definition update_instigator_state :: "dagster_instance \<Rightarrow> instigator_state \<Rightarrow> dagster_instance" where
  "update_instigator_state inst st =
     inst\<lparr>instigator_states :=
       (instigator_states inst)((instigator_origin_id st, state_selector_id st) \<mapsto> st)\<rparr>"

definition record_call :: "store_call \<Rightarrow> dagster_instance \<Rightarrow> dagster_instance" where
  "record_call c inst = inst\<lparr>journal := journal inst @ [c]\<rparr>"

subsection \<open>Throttle gate\<close>

text \<open>\<^verbatim>\<open>_is_under_min_interval\<close>; \<open>now\<close> is its reading of the clock.\<close>

definition is_under_min_interval :: "timestamp \<Rightarrow> instigator_state \<Rightarrow> external_sensor \<Rightarrow> bool" where
  "is_under_min_interval now state external_sensor =
     (case instigator_data state of
        None \<Rightarrow> False
      | Some d \<Rightarrow>
          if \<not> truthy_num (last_tick_start_timestamp d) \<and> \<not> truthy_num (last_tick_timestamp d)
          then False
          else if \<not> truthy_num (min_interval_seconds external_sensor) then False
          else now - max (or_zero (last_tick_timestamp d)) (or_zero (last_tick_start_timestamp d))
                 < of_int (or_zero (min_interval_seconds external_sensor)))"

text \<open>\<^verbatim>\<open>_mark_sensor_state_for_tick\<close>\<close>

definition mark_sensor_state_for_tick ::
  "dagster_instance \<Rightarrow> external_sensor \<Rightarrow> instigator_state \<Rightarrow> timestamp \<Rightarrow> dagster_instance" where
  "mark_sensor_state_for_tick inst external_sensor sensor_state now =
     update_instigator_state inst
       (sensor_state\<lparr>instigator_data := Some
          \<lparr>last_tick_timestamp =
             (case instigator_data sensor_state of None \<Rightarrow> None | Some d \<Rightarrow> last_tick_timestamp d),
           last_run_key =
             (case instigator_data sensor_state of None \<Rightarrow> None | Some d \<Rightarrow> last_run_key d),
           min_interval = min_interval_seconds external_sensor,
           cursor = (case instigator_data sensor_state of None \<Rightarrow> None | Some d \<Rightarrow> cursor d),
           last_tick_start_timestamp = Some now\<rparr>\<rparr>)"

text \<open>The block of \<^verbatim>\<open>_process_tick_generator\<close> that runs under \<^verbatim>\<open>sensor_state_lock\<close>:
  one atomic step on the instance. \<open>sensor_state\<close> is the caller's copy of the state, which the
  block overwrites with the state it reads; \<open>now\<close> is the clock read at the top of the block
  and \<open>now_gate\<close> the later one inside \<^verbatim>\<open>_is_under_min_interval\<close>.\<close>

datatype claim_result = ClaimRaised py_exception | ClaimThrottled | Claimed instigator_state

definition claim_tick ::
  "dagster_instance \<Rightarrow> external_sensor \<Rightarrow> instigator_state \<Rightarrow> timestamp \<Rightarrow> timestamp
     \<Rightarrow> claim_result \<times> dagster_instance" where
  "claim_tick inst external_sensor sensor_state now now_gate =
     (case get_instigator_state inst (external_origin_id external_sensor) (selector_id external_sensor) of
        None \<Rightarrow> (ClaimRaised (Exception ''CheckError''), inst)
      | Some st \<Rightarrow>
          if is_under_min_interval now_gate st external_sensor then (ClaimThrottled, inst)
          else (Claimed st, mark_sensor_state_for_tick inst external_sensor st now))"

subsection \<open>Ticks\<close>

text \<open>Modelled from the spec: the methods of \<^verbatim>\<open>InstigatorTick\<close> and \<^verbatim>\<open>TickData\<close>
  (dagster/\_core/scheduler/instigation.py is not among the sources). Each returns a copy of
  the tick with the named part replaced; \<open>run_ids\<close> and \<open>run_keys\<close> are ordered and
  append-only, and \<open>with_run_info\<close> appends an id or a key that is given and not yet listed.\<close>

definition with_status :: "tick \<Rightarrow> tick_status \<Rightarrow> serializable_error_info option \<Rightarrow> tick" where
  "with_status t status err = t\<lparr>tick_status := status, error := err\<rparr>"

definition with_reason :: "tick \<Rightarrow> string option \<Rightarrow> tick" where
  "with_reason t reason = t\<lparr>skip_reason := reason\<rparr>"

definition with_cursor :: "tick \<Rightarrow> string option \<Rightarrow> tick" where
  "with_cursor t c = t\<lparr>tick_cursor := c\<rparr>"

definition with_origin_run :: "tick \<Rightarrow> nat \<Rightarrow> tick" where
  "with_origin_run t origin_run_id = t\<lparr>origin_run_ids := origin_run_ids t @ [origin_run_id]\<rparr>"

definition with_log_key :: "tick \<Rightarrow> string list \<Rightarrow> tick" where
  "with_log_key t k = t\<lparr>log_key := Some k\<rparr>"

definition with_dynamic_partitions_request_result ::
  "tick \<Rightarrow> dynamic_partitions_request_result \<Rightarrow> tick" where
  "with_dynamic_partitions_request_result t r =
     t\<lparr>dynamic_partitions_request_results := dynamic_partitions_request_results t @ [r]\<rparr>"

definition with_run_info :: "tick \<Rightarrow> nat option \<Rightarrow> string option \<Rightarrow> tick" where
  "with_run_info t rid rkey =
     t\<lparr>run_ids :=
         (case rid of
            None \<Rightarrow> run_ids t
          | Some i \<Rightarrow> if i \<in> set (run_ids t) then run_ids t else run_ids t @ [i]),
       run_keys :=
         (case rkey of
            None \<Rightarrow> run_keys t
          | Some k \<Rightarrow> if k = [] \<or> k \<in> set (run_keys t) then run_keys t else run_keys t @ [k])\<rparr>"

text \<open>Modelled from the spec: \<^verbatim>\<open>instance.create_tick\<close> (the store operation
  \<^verbatim>\<open>createTick\<close>), which stores the tick data under a new id. The cursor, run ids, run
  keys, skip reason and error that \<^verbatim>\<open>_process_tick_generator\<close> does not pass are empty.\<close>

definition create_tick ::
  "dagster_instance \<Rightarrow> string \<Rightarrow> string \<Rightarrow> tick_status \<Rightarrow> timestamp \<Rightarrow> string
     \<Rightarrow> tick \<times> dagster_instance" where
  "create_tick inst origin_id name status ts sel_id =
     (let t = \<lparr>tick_id = next_tick_id inst, tick_origin_id = origin_id,
                tick_instigator_name = name, tick_selector_id = sel_id, tick_status = status,
                tick_timestamp = ts, tick_cursor = None, run_ids = [], run_keys = [],
                skip_reason = None, error = None, log_key = None, origin_run_ids = [],
                dynamic_partitions_request_results = []\<rparr>
      in (t, record_call (CreateTick t) (inst\<lparr>next_tick_id := Suc (next_tick_id inst)\<rparr>)))"

subsection \<open>SensorLaunchContext\<close>

definition FINISHED_TICK_STATES :: "tick_status list" where
  "FINISHED_TICK_STATES = [SKIPPED, SUCCESS, FAILURE]"

record sensor_launch_context =
  ctx_external_sensor :: external_sensor
  ctx_tick :: tick
  should_update_cursor_on_failure :: bool
  purge_settings :: "(int \<times> tick_status list) list"

text \<open>\<^verbatim>\<open>__init__\<close>: the retention settings (status to day offset, in the order of
  \<^verbatim>\<open>items()\<close>) grouped by day offset.\<close>

fun add_purge_setting ::
  "(int \<times> tick_status list) list \<Rightarrow> int \<Rightarrow> tick_status \<Rightarrow> (int \<times> tick_status list) list" where
  "add_purge_setting [] day_offset status = [(day_offset, [status])]"
| "add_purge_setting ((d, ss) # rest) day_offset status =
     (if d = day_offset then (d, if status \<in> set ss then ss else ss @ [status]) # rest
      else (d, ss) # add_purge_setting rest day_offset status)"

fun make_purge_settings ::
  "(int \<times> tick_status list) list \<Rightarrow> (tick_status \<times> int) list \<Rightarrow> (int \<times> tick_status list) list" where
  "make_purge_settings acc [] = acc"
| "make_purge_settings acc ((status, day_offset) # rest) =
     make_purge_settings (add_purge_setting acc day_offset status) rest"

definition init_context ::
  "external_sensor \<Rightarrow> tick \<Rightarrow> (tick_status \<times> int) list \<Rightarrow> sensor_launch_context" where
  "init_context external_sensor t tick_retention_settings =
     \<lparr>ctx_external_sensor = external_sensor, ctx_tick = t,
      should_update_cursor_on_failure = False,
      purge_settings = make_purge_settings [] tick_retention_settings\<rparr>"

definition run_count :: "sensor_launch_context \<Rightarrow> nat" where
  "run_count context = length (run_ids (ctx_tick context))"

text \<open>\<^verbatim>\<open>update_state(status, error=, skip_reason=, cursor=, origin_run_id=)\<close>: an absent
  keyword is \<open>None\<close>. A tick status is always true, so \<^verbatim>\<open>with_status\<close> always runs.\<close>

definition update_state ::
  "sensor_launch_context \<Rightarrow> tick_status \<Rightarrow> serializable_error_info option \<Rightarrow> string option
     \<Rightarrow> string option \<Rightarrow> nat option \<Rightarrow> sensor_launch_context" where
  "update_state context status err reason cur origin_run_id =
     (let t1 = with_status (ctx_tick context) status err;
          t2 = (if truthy_str reason then with_reason t1 reason else t1);
          t3 = (if truthy_str cur then with_cursor t2 cur else t2);
          t4 = (case origin_run_id of None \<Rightarrow> t3 | Some i \<Rightarrow> with_origin_run t3 i)
      in context\<lparr>ctx_tick := t4\<rparr>)"

definition add_run_info :: "sensor_launch_context \<Rightarrow> nat option \<Rightarrow> string option \<Rightarrow> sensor_launch_context" where
  "add_run_info context rid rkey = context\<lparr>ctx_tick := with_run_info (ctx_tick context) rid rkey\<rparr>"

definition add_log_info :: "sensor_launch_context \<Rightarrow> string list \<Rightarrow> sensor_launch_context" where
  "add_log_info context k = context\<lparr>ctx_tick := with_log_key (ctx_tick context) k\<rparr>"

definition add_dynamic_partitions_request_result ::
  "sensor_launch_context \<Rightarrow> dynamic_partitions_request_result \<Rightarrow> sensor_launch_context" where
  "add_dynamic_partitions_request_result context r =
     context\<lparr>ctx_tick := with_dynamic_partitions_request_result (ctx_tick context) r\<rparr>"

definition set_should_update_cursor_on_failure ::
  "sensor_launch_context \<Rightarrow> bool \<Rightarrow> sensor_launch_context" where
  "set_should_update_cursor_on_failure context b = context\<lparr>should_update_cursor_on_failure := b\<rparr>"

text \<open>\<^verbatim>\<open>_write\<close>. Reading \<^verbatim>\<open>state.instigator_data\<close> of a missing state, or
  \<^verbatim>\<open>last_tick_start_timestamp\<close> of missing data, raises \<^verbatim>\<open>AttributeError\<close>.\<close>

definition write_ctx ::
  "sensor_launch_context \<Rightarrow> dagster_instance \<Rightarrow> py_exception option \<times> dagster_instance" where
  "write_ctx context inst =
     (let t = ctx_tick context;
          inst1 = record_call (UpdateTick t) inst
      in if tick_status t \<notin> set FINISHED_TICK_STATES then (None, inst1)
         else
           let should_update_cursor_and_last_run_key =
                 (tick_status t \<noteq> FAILURE \<or> should_update_cursor_on_failure context)
           in case get_instigator_state inst1
                     (external_origin_id (ctx_external_sensor context))
                     (selector_id (ctx_external_sensor context)) of
                None \<Rightarrow> (Some (Exception ''AttributeError''), inst1)
              | Some state \<Rightarrow>
                  (case instigator_data state of
                     None \<Rightarrow> (Some (Exception ''AttributeError''), inst1)
                   | Some d \<Rightarrow>
                       (None, update_instigator_state inst1
                          (state\<lparr>instigator_data := Some
                             \<lparr>last_tick_timestamp = Some (tick_timestamp t),
                              last_run_key =
                                (if run_keys t \<noteq> [] \<and> should_update_cursor_and_last_run_key
                                 then Some (last (run_keys t)) else last_run_key d),
                              min_interval = min_interval_seconds (ctx_external_sensor context),
                              cursor =
                                (if should_update_cursor_and_last_run_key then tick_cursor t
                                 else cursor d),
                              last_tick_start_timestamp =
                                Some (max (tick_timestamp t)
                                        (or_zero (last_tick_start_timestamp d)))\<rparr>\<rparr>))))"

text \<open>The purge loop of \<^verbatim>\<open>__exit__\<close>; \<open>now\<close> is the clock, a day is 86400 seconds.\<close>

fun purge_ticks_loop ::
  "external_sensor \<Rightarrow> timestamp \<Rightarrow> (int \<times> tick_status list) list \<Rightarrow> dagster_instance
     \<Rightarrow> dagster_instance" where
  "purge_ticks_loop external_sensor now [] inst = inst"
| "purge_ticks_loop external_sensor now ((day_offset, statuses) # rest) inst =
     (if day_offset \<le> 0 then purge_ticks_loop external_sensor now rest inst
      else purge_ticks_loop external_sensor now rest
             (record_call
                (PurgeTicks (external_origin_id external_sensor) (selector_id external_sensor)
                   (now - 86400 * of_int day_offset) statuses) inst))"

text \<open>\<^verbatim>\<open>__exit__\<close>, given the exception that left the body, if any. It returns the
  context, the exception that leaves the \<^verbatim>\<open>with\<close> statement and the instance:
  \<^verbatim>\<open>__exit__\<close> returns \<^verbatim>\<open>None\<close>, so the body's exception is raised again, unless
  \<^verbatim>\<open>_write\<close> raised one of its own.\<close>

definition exit_ctx ::
  "sensor_launch_context \<Rightarrow> dagster_instance \<Rightarrow> py_exception option \<Rightarrow> timestamp
     \<Rightarrow> sensor_launch_context \<times> py_exception option \<times> dagster_instance" where
  "exit_ctx context inst exception_value now =
     (if exception_value = Some KeyboardInterrupt then (context, exception_value, inst)
      else
        let context1 =
              (case exception_value of
                 None \<Rightarrow> context
               | Some e \<Rightarrow>
                   if e = GeneratorExit then context
                   else update_state context FAILURE
                          (Some (serializable_error_info_from_exc_info e)) None None None)
        in case write_ctx context1 inst of
             (Some e, inst1) \<Rightarrow> (context1, Some e, inst1)
           | (None, inst1) \<Rightarrow>
               (context1, exception_value,
                purge_ticks_loop (ctx_external_sensor context1) now (purge_settings context1) inst1))"

subsection \<open>Run deduplication and submission\<close>

text \<open>Modelled from the spec: the tag names \<^verbatim>\<open>RUN_KEY_TAG\<close> and
  \<^verbatim>\<open>SENSOR_NAME_TAG\<close> (dagster/\_core/storage/tags.py) and
  \<^verbatim>\<open>DagsterRun.tags_for_sensor\<close>, none of them among the sources: runs are tagged with
  their run key and with the name of their sensor, under two different tag names.\<close>

definition RUN_KEY_TAG :: string where
  "RUN_KEY_TAG = ''dagster/run_key''"

definition SENSOR_NAME_TAG :: string where
  "SENSOR_NAME_TAG = ''dagster/sensor_name''"

definition tags_for_sensor :: "external_sensor \<Rightarrow> tags" where
  "tags_for_sensor external_sensor = [SENSOR_NAME_TAG \<mapsto> sensor_name external_sensor]"

text \<open>Modelled from the spec: \<^verbatim>\<open>merge_dicts\<close> (dagster/\_utils/merger.py is not
  among the sources), the union of two dictionaries in which the later one wins.\<close>

definition merge_dicts :: "tags \<Rightarrow> tags \<Rightarrow> tags" where
  "merge_dicts a b = a ++ b"

text \<open>Modelled from the spec: the store operation \<^verbatim>\<open>getRuns(filterByTags)\<close>
  (\<^verbatim>\<open>instance.get_runs\<close> with a tag filter whose value is a list): the stored runs whose
  tag has one of the values, in the order of the store.\<close>

definition get_runs :: "dagster_instance \<Rightarrow> string \<Rightarrow> string list \<Rightarrow> dagster_run list" where
  "get_runs inst tag vals =
     filter (\<lambda>r. case run_tags r tag of None \<Rightarrow> False | Some v \<Rightarrow> v \<in> set vals) (runs inst)"

text \<open>Modelled from the spec: \<^verbatim>\<open>createRun(spec) -> Run\<close> (\<^verbatim>\<open>instance.create_run\<close>
  with \<^verbatim>\<open>run_id=None\<close>), which stores a run under a new id, and \<^verbatim>\<open>submitRun\<close>
  (\<^verbatim>\<open>instance.submit_run\<close>), after which the run is no longer \<^verbatim>\<open>NOT_STARTED\<close>.\<close>

definition create_run ::
  "dagster_instance \<Rightarrow> string \<Rightarrow> run_status \<Rightarrow> tags \<Rightarrow> string option
     \<Rightarrow> dagster_run \<times> dagster_instance" where
  "create_run inst name status tgs origin =
     (let r = \<lparr>run_id = next_run_id inst, run_job_name = name, run_status = status,
                run_tags = tgs, external_job_origin = origin\<rparr>
      in (r, inst\<lparr>runs := runs inst @ [r], next_run_id := Suc (next_run_id inst)\<rparr>))"

definition submit_run :: "dagster_instance \<Rightarrow> nat \<Rightarrow> dagster_instance" where
  "submit_run inst rid =
     inst\<lparr>runs := map (\<lambda>r. if run_id r = rid then r\<lparr>run_status := RUN_QUEUED\<rparr> else r) (runs inst)\<rparr>"

text \<open>\<^verbatim>\<open>_fetch_existing_runs\<close>. The dictionary it returns is keyed by
  \<^verbatim>\<open>tags.get(RUN_KEY_TAG)\<close>, an optional string.\<close>

definition requested_run_keys :: "run_request list \<Rightarrow> string list" where
  "requested_run_keys rrs =
     concat (map (\<lambda>rr. case run_key rr of None \<Rightarrow> [] | Some k \<Rightarrow> if k = [] then [] else [k]) rrs)"

definition valid_run :: "external_sensor \<Rightarrow> dagster_run \<Rightarrow> bool" where
  "valid_run external_sensor run =
     (case external_job_origin run of
        None \<Rightarrow> run_tags run SENSOR_NAME_TAG = Some (sensor_name external_sensor)
      | Some origin \<Rightarrow>
          origin = repository_selector_id external_sensor
          \<and> run_tags run SENSOR_NAME_TAG = Some (sensor_name external_sensor))"

fun index_runs ::
  "(string option \<rightharpoonup> dagster_run) \<Rightarrow> dagster_run list \<Rightarrow> (string option \<rightharpoonup> dagster_run)" where
  "index_runs existing_runs [] = existing_runs"
| "index_runs existing_runs (run # rest) =
     index_runs (existing_runs(run_tags run RUN_KEY_TAG \<mapsto> run)) rest"

definition fetch_existing_runs ::
  "dagster_instance \<Rightarrow> external_sensor \<Rightarrow> run_request list \<Rightarrow> (string option \<rightharpoonup> dagster_run)" where
  "fetch_existing_runs inst external_sensor rrs =
     (let ks = requested_run_keys rrs
      in if ks = [] then Map.empty
         else index_runs Map.empty
                (filter (valid_run external_sensor) (get_runs inst RUN_KEY_TAG ks)))"

text \<open>\<^verbatim>\<open>_create_sensor_run\<close>. The job comes from the sensor's own repository, so the
  origin recorded on the run is that repository.\<close>

definition create_sensor_run ::
  "dagster_instance \<Rightarrow> external_sensor \<Rightarrow> external_job \<Rightarrow> run_request
     \<Rightarrow> dagster_run \<times> dagster_instance" where
  "create_sensor_run inst external_sensor external_job rr =
     (let tgs = merge_dicts (merge_dicts (job_tags external_job) (request_tags rr))
                  (tags_for_sensor external_sensor);
          tgs1 = (if truthy_str (run_key rr) then tgs(RUN_KEY_TAG := run_key rr) else tgs)
      in create_run inst (job_name external_job) RUN_NOT_STARTED tgs1
           (Some (repository_selector_id external_sensor)))"

datatype sensor_run = Run dagster_run | SkippedSensorRun "string option" dagster_run

text \<open>\<^verbatim>\<open>_get_or_create_sensor_run\<close>\<close>

definition get_or_create_sensor_run ::
  "dagster_instance \<Rightarrow> external_sensor \<Rightarrow> external_job \<Rightarrow> run_request
     \<Rightarrow> (string option \<rightharpoonup> dagster_run) \<Rightarrow> sensor_run \<times> dagster_instance" where
  "get_or_create_sensor_run inst external_sensor external_job rr existing_runs_by_key =
     (if \<not> truthy_str (run_key rr)
      then (case create_sensor_run inst external_sensor external_job rr of
              (run, inst1) \<Rightarrow> (Run run, inst1))
      else (case existing_runs_by_key (run_key rr) of
              Some run \<Rightarrow>
                if run_status run \<noteq> RUN_NOT_STARTED
                then (SkippedSensorRun (run_key rr) run, inst)
                else (Run run, inst)
            | None \<Rightarrow>
                (case create_sensor_run inst external_sensor external_job rr of
                   (run, inst1) \<Rightarrow> (Run run, inst1))))"

record submit_run_request_result =
  result_run_key :: "string option"
  error_info :: "serializable_error_info option"
  result_run :: sensor_run

text \<open>\<^verbatim>\<open>_submit_run_request\<close>. \<open>launch\<close> tells what \<^verbatim>\<open>instance.submit_run\<close> raises
  for a run, if anything. An exception that leaves the function comes with the instance as it
  was left.\<close>

definition submit_run_request ::
  "run_request \<Rightarrow> dagster_instance \<Rightarrow> external_sensor \<Rightarrow> (string option \<rightharpoonup> dagster_run)
     \<Rightarrow> (dagster_run \<Rightarrow> py_exception option)
     \<Rightarrow> (py_exception + submit_run_request_result) \<times> dagster_instance" where
  "submit_run_request rr inst external_sensor existing_runs_by_key launch =
     (case target_job external_sensor (request_job_name rr) of
        None \<Rightarrow> (Inl (Exception ''CheckError''), inst)
      | Some external_job \<Rightarrow>
          (case get_or_create_sensor_run inst external_sensor external_job rr existing_runs_by_key of
             (SkippedSensorRun k existing_run, inst1) \<Rightarrow>
               (Inr \<lparr>result_run_key = run_key rr, error_info = None,
                     result_run = SkippedSensorRun k existing_run\<rparr>, inst1)
           | (Run run, inst1) \<Rightarrow>
               (case launch run of
                  None \<Rightarrow>
                    (Inr \<lparr>result_run_key = run_key rr, error_info = None, result_run = Run run\<rparr>,
                     submit_run inst1 (run_id run))
                | Some e \<Rightarrow>
                    if is_Exception e
                    then (Inr \<lparr>result_run_key = run_key rr,
                               error_info = Some (serializable_error_info_from_exc_info e),
                               result_run = Run run\<rparr>,
                          record_call (LogError ''created successfully but failed to launch'') inst1)
                    else (Inl e, inst1))))"

text \<open>The filter of \<^verbatim>\<open>_evaluate_sensor\<close> for requests of stale assets only;
  \<open>resolve_stale\<close> is \<^verbatim>\<open>resolve_stale_or_missing_assets\<close>.\<close>

fun stale_filtered :: "(run_request \<Rightarrow> string list) \<Rightarrow> run_request list \<Rightarrow> run_request list" where
  "stale_filtered resolve_stale [] = []"
| "stale_filtered resolve_stale (raw # rest) =
     (if stale_assets_only raw
      then (if resolve_stale raw = [] then stale_filtered resolve_stale rest
            else raw\<lparr>asset_selection := Some (resolve_stale raw), stale_assets_only := False\<rparr>
                   # stale_filtered resolve_stale rest)
      else raw # stale_filtered resolve_stale rest)"

text \<open>The loop of \<^verbatim>\<open>_evaluate_sensor\<close> over the results of \<^verbatim>\<open>map(submit_run_request,
  run_requests)\<close>, which is lazy: each request is submitted when the loop reaches it. The
  results so far are kept in order.\<close>

fun submit_run_requests ::
  "external_sensor \<Rightarrow> (string option \<rightharpoonup> dagster_run) \<Rightarrow> (dagster_run \<Rightarrow> py_exception option)
     \<Rightarrow> run_request list \<Rightarrow> submit_run_request_result list \<Rightarrow> sensor_launch_context
     \<Rightarrow> dagster_instance
     \<Rightarrow> py_exception option \<times> submit_run_request_result list \<times> sensor_launch_context
         \<times> dagster_instance" where
  "submit_run_requests external_sensor existing launch [] results context inst =
     (None, results, context, inst)"
| "submit_run_requests external_sensor existing launch (rr # rest) results context inst =
     (case submit_run_request rr inst external_sensor existing launch of
        (Inl e, inst1) \<Rightarrow> (Some e, results, context, inst1)
      | (Inr res, inst1) \<Rightarrow>
          (case result_run res of
             SkippedSensorRun k existing_run \<Rightarrow>
               submit_run_requests external_sensor existing launch rest (results @ [res])
                 (add_run_info context None (result_run_key res)) inst1
           | Run run \<Rightarrow>
               submit_run_requests external_sensor existing launch rest (results @ [res])
                 (add_run_info context (Some (run_id run)) (result_run_key res)) inst1))"

subsection \<open>Dynamic partitions\<close>

text \<open>Modelled from the spec: the store operations \<^verbatim>\<open>hasDynamicPartition\<close>,
  \<^verbatim>\<open>addDynamicPartitions\<close> and \<^verbatim>\<open>deleteDynamicPartition\<close> on the registry, a set of
  keys for each partitions definition.\<close>

definition has_dynamic_partition :: "dagster_instance \<Rightarrow> string \<Rightarrow> string \<Rightarrow> bool" where
  "has_dynamic_partition inst name k = (k \<in> dynamic_partitions inst name)"

definition add_dynamic_partitions :: "dagster_instance \<Rightarrow> string \<Rightarrow> string list \<Rightarrow> dagster_instance" where
  "add_dynamic_partitions inst name ks =
     inst\<lparr>dynamic_partitions := (dynamic_partitions inst)(name := dynamic_partitions inst name \<union> set ks)\<rparr>"

definition delete_dynamic_partition :: "dagster_instance \<Rightarrow> string \<Rightarrow> string \<Rightarrow> dagster_instance" where
  "delete_dynamic_partition inst name k =
     inst\<lparr>dynamic_partitions := (dynamic_partitions inst)(name := dynamic_partitions inst name - {k})\<rparr>"

fun delete_dynamic_partitions_loop ::
  "dagster_instance \<Rightarrow> string \<Rightarrow> string list \<Rightarrow> dagster_instance" where
  "delete_dynamic_partitions_loop inst name [] = inst"
| "delete_dynamic_partitions_loop inst name (k # ks) =
     delete_dynamic_partitions_loop (delete_dynamic_partition inst name k) name ks"

text \<open>One pass of the loop of \<^verbatim>\<open>_evaluate_sensor\<close> over the dynamic partitions requests.\<close>

fun apply_dynamic_partitions_request ::
  "dynamic_partitions_request \<Rightarrow> sensor_launch_context \<times> dagster_instance
     \<Rightarrow> sensor_launch_context \<times> dagster_instance" where
  "apply_dynamic_partitions_request (AddDynamicPartitionsRequest name ks) (context, inst) =
     (let existent_partitions = filter (\<lambda>k. has_dynamic_partition inst name k) ks;
          nonexistent_partitions = filter (\<lambda>k. \<not> has_dynamic_partition inst name k) ks
      in (add_dynamic_partitions_request_result context
            \<lparr>result_partitions_def_name = name, added_partitions = Some nonexistent_partitions,
             deleted_partitions = None, skipped_partitions = existent_partitions\<rparr>,
          if nonexistent_partitions \<noteq> [] then add_dynamic_partitions inst name nonexistent_partitions
          else inst))"
| "apply_dynamic_partitions_request (DeleteDynamicPartitionsRequest name ks) (context, inst) =
     (let existent_partitions = filter (\<lambda>k. has_dynamic_partition inst name k) ks;
          nonexistent_partitions = filter (\<lambda>k. \<not> has_dynamic_partition inst name k) ks
      in (add_dynamic_partitions_request_result context
            \<lparr>result_partitions_def_name = name, added_partitions = None,
             deleted_partitions = Some existent_partitions,
             skipped_partitions = nonexistent_partitions\<rparr>,
          if existent_partitions \<noteq> [] then delete_dynamic_partitions_loop inst name existent_partitions
          else inst))"

fun apply_dynamic_partitions_requests ::
  "dynamic_partitions_request list \<Rightarrow> sensor_launch_context \<times> dagster_instance
     \<Rightarrow> sensor_launch_context \<times> dagster_instance" where
  "apply_dynamic_partitions_requests [] ci = ci"
| "apply_dynamic_partitions_requests (request # rest) ci =
     apply_dynamic_partitions_requests rest (apply_dynamic_partitions_request request ci)"

subsection \<open>Evaluation of one tick\<close>

text \<open>The evaluation call \<^verbatim>\<open>get_external_sensor_execution_data\<close> is external: it is a
  function of the last tick timestamp, the last run key and the cursor it is given, and it
  raises or returns the execution data.\<close>

datatype evaluation = EvalRaises py_exception | EvalReturns sensor_execution_data

definition get_external_sensor_execution_data ::
  "(timestamp option \<Rightarrow> string option \<Rightarrow> string option \<Rightarrow> evaluation) \<Rightarrow> instigator_state
     \<Rightarrow> evaluation" where
  "get_external_sensor_execution_data evaluate state =
     evaluate
       (case instigator_data state of None \<Rightarrow> None | Some d \<Rightarrow> last_tick_timestamp d)
       (case instigator_data state of None \<Rightarrow> None | Some d \<Rightarrow> last_run_key d)
       (case instigator_data state of None \<Rightarrow> None | Some d \<Rightarrow> cursor d)"

text \<open>The loop of \<^verbatim>\<open>_evaluate_sensor\<close> over the run reactions; \<open>cur\<close> is the cursor of
  the execution data.\<close>

fun react_to_runs ::
  "dagster_run_reaction list \<Rightarrow> string option \<Rightarrow> sensor_launch_context \<Rightarrow> dagster_instance
     \<Rightarrow> py_exception option \<times> sensor_launch_context \<times> dagster_instance" where
  "react_to_runs [] cur context inst = (None, context, inst)"
| "react_to_runs (run_reaction # rest) cur context inst =
     (case reaction_run run_reaction of
        None \<Rightarrow> (Some (Exception ''CheckError''), context, inst)
      | Some origin_run \<Rightarrow>
          (case reaction_error run_reaction of
             Some err \<Rightarrow>
               react_to_runs rest cur
                 (set_should_update_cursor_on_failure
                    (update_state context FAILURE (Some err) None cur None) True)
                 (record_call (LogError ''reaction request errored'') inst)
           | None \<Rightarrow>
               react_to_runs rest cur
                 (update_state context SUCCESS None None cur (Some (run_id origin_run))) inst))"

text \<open>\<^verbatim>\<open>_evaluate_sensor\<close>: the body of the \<^verbatim>\<open>with\<close> statement. It returns the
  exception that leaves it, if any, the results of the run requests it submitted, the context
  and the instance.\<close>

definition evaluate_sensor ::
  "sensor_launch_context \<Rightarrow> dagster_instance \<Rightarrow> external_sensor \<Rightarrow> instigator_state
     \<Rightarrow> (timestamp option \<Rightarrow> string option \<Rightarrow> string option \<Rightarrow> evaluation)
     \<Rightarrow> (dagster_run \<Rightarrow> py_exception option) \<Rightarrow> (run_request \<Rightarrow> string list)
     \<Rightarrow> py_exception option \<times> submit_run_request_result list \<times> sensor_launch_context
         \<times> dagster_instance" where
  "evaluate_sensor context inst external_sensor state evaluate launch resolve_stale =
     (case get_external_sensor_execution_data evaluate state of
        EvalRaises e \<Rightarrow> (Some e, [], context, inst)
      | EvalReturns sensor_runtime_data \<Rightarrow>
          (let context1 =
                 (case captured_log_key sensor_runtime_data of
                    None \<Rightarrow> context
                  | Some k \<Rightarrow> if k = [] then context else add_log_info context k)
           in case apply_dynamic_partitions_requests
                     (dynamic_partitions_requests sensor_runtime_data) (context1, inst) of
                (context2, inst2) \<Rightarrow>
                  if run_requests sensor_runtime_data = []
                  then
                    (if dagster_run_reactions sensor_runtime_data \<noteq> []
                     then (case react_to_runs (dagster_run_reactions sensor_runtime_data)
                                  (data_cursor sensor_runtime_data) context2 inst2 of
                             (exc, context3, inst3) \<Rightarrow> (exc, [], context3, inst3))
                     else if truthy_str (skip_message sensor_runtime_data)
                     then (None, [],
                           update_state context2 SKIPPED None (skip_message sensor_runtime_data)
                             (data_cursor sensor_runtime_data) None, inst2)
                     else (None, [],
                           update_state context2 SKIPPED None None
                             (data_cursor sensor_runtime_data) None, inst2))
                  else
                    (case submit_run_requests external_sensor
                            (fetch_existing_runs inst2 external_sensor
                               (run_requests sensor_runtime_data))
                            launch
                            (stale_filtered resolve_stale (run_requests sensor_runtime_data))
                            [] context2 inst2 of
                       (Some e, results, context3, inst3) \<Rightarrow> (Some e, results, context3, inst3)
                     | (None, results, context3, inst3) \<Rightarrow>
                         (None, results,
                          update_state context3
                            (if run_count context3 \<noteq> 0 then SUCCESS else SKIPPED)
                            None None (data_cursor sensor_runtime_data) None,
                          inst3))))"

text \<open>\<^verbatim>\<open>_process_tick_generator\<close>: the claim under the lock, the tick, the evaluation inside
  the launch context, and the handler of \<^verbatim>\<open>Exception\<close>. \<open>now\<close> and \<open>now_gate\<close> are the
  clock readings of the claim and \<open>now_exit\<close> the one of the purge.\<close>

datatype tick_outcome =
  TickThrottled
| TickYielded "serializable_error_info option"
| TickRaised py_exception

definition process_tick_generator ::
  "dagster_instance \<Rightarrow> external_sensor \<Rightarrow> instigator_state \<Rightarrow> (tick_status \<times> int) list
     \<Rightarrow> (timestamp option \<Rightarrow> string option \<Rightarrow> string option \<Rightarrow> evaluation)
     \<Rightarrow> (dagster_run \<Rightarrow> py_exception option) \<Rightarrow> (run_request \<Rightarrow> string list)
     \<Rightarrow> timestamp \<Rightarrow> timestamp \<Rightarrow> timestamp
     \<Rightarrow> tick_outcome \<times> submit_run_request_result list \<times> dagster_instance" where
  "process_tick_generator inst external_sensor sensor_state tick_retention_settings
       evaluate launch resolve_stale now now_gate now_exit =
     (case claim_tick inst external_sensor sensor_state now now_gate of
        (ClaimRaised e, inst1) \<Rightarrow> (TickRaised e, [], inst1)
      | (ClaimThrottled, inst1) \<Rightarrow> (TickThrottled, [], inst1)
      | (Claimed st, inst1) \<Rightarrow>
          (case create_tick inst1 (instigator_origin_id st) (instigator_name st) STARTED now
                  (selector_id external_sensor) of
             (t, inst2) \<Rightarrow>
               (case evaluate_sensor (init_context external_sensor t tick_retention_settings)
                       inst2 external_sensor st evaluate launch resolve_stale of
                  (exc, results, context1, inst3) \<Rightarrow>
                    (case exit_ctx context1 inst3 exc now_exit of
                       (context2, None, inst4) \<Rightarrow> (TickYielded None, results, inst4)
                     | (context2, Some e, inst4) \<Rightarrow>
                         if is_Exception e
                         then (TickYielded (Some (serializable_error_info_from_exc_info e)), results,
                               record_call (LogError ''Sensor daemon caught an error'') inst4)
                         else (TickRaised e, results, inst4)))))"

subsection \<open>Observations used by the theorems\<close>

text \<open>The cursor and the last run key that the store holds for a sensor, read as
  \<^verbatim>\<open>_write\<close> reads them: \<^verbatim>\<open>state.instigator_data.cursor if state.instigator_data
  else None\<close>.\<close>

definition persisted_data :: "dagster_instance \<Rightarrow> external_sensor \<Rightarrow> sensor_instigator_data option" where
  "persisted_data inst external_sensor =
     (case get_instigator_state inst (external_origin_id external_sensor)
             (selector_id external_sensor) of
        None \<Rightarrow> None
      | Some st \<Rightarrow> instigator_data st)"

definition persisted_cursor :: "dagster_instance \<Rightarrow> external_sensor \<Rightarrow> string option" where
  "persisted_cursor inst external_sensor =
     (case persisted_data inst external_sensor of None \<Rightarrow> None | Some d \<Rightarrow> cursor d)"

definition persisted_last_run_key :: "dagster_instance \<Rightarrow> external_sensor \<Rightarrow> string option" where
  "persisted_last_run_key inst external_sensor =
     (case persisted_data inst external_sensor of None \<Rightarrow> None | Some d \<Rightarrow> last_run_key d)"


fun is_PurgeTicks :: "store_call \<Rightarrow> bool" where
  "is_PurgeTicks (PurgeTicks a b c d) = True"
| "is_PurgeTicks (CreateTick t) = False"
| "is_PurgeTicks (UpdateTick t) = False"
| "is_PurgeTicks (LogError m) = False"


text \<open>The ticks written by \<^verbatim>\<open>update_tick\<close>, in order.\<close>

fun written_ticks :: "store_call list \<Rightarrow> tick list" where
  "written_ticks [] = []"
| "written_ticks (UpdateTick t # rest) = t # written_ticks rest"
| "written_ticks (CreateTick t # rest) = written_ticks rest"
| "written_ticks (PurgeTicks a b c d # rest) = written_ticks rest"
| "written_ticks (LogError m # rest) = written_ticks rest"

text \<open>The tick that \<^verbatim>\<open>_process_tick_generator\<close> creates for a claimed state.\<close>

definition started_tick ::
  "dagster_instance \<Rightarrow> external_sensor \<Rightarrow> instigator_state \<Rightarrow> timestamp \<Rightarrow> tick" where
  "started_tick inst s st now =
     \<lparr>tick_id = next_tick_id inst, tick_origin_id = instigator_origin_id st,
      tick_instigator_name = instigator_name st, tick_selector_id = selector_id s,
      tick_status = STARTED, tick_timestamp = now, tick_cursor = None, run_ids = [],
      run_keys = [], skip_reason = None, error = None, log_key = None, origin_run_ids = [],
      dynamic_partitions_request_results = []\<rparr>"

subsection \<open>A sensor, a state and an instance to evaluate on\<close>

definition example_sensor :: external_sensor where
  "example_sensor =
     \<lparr>sensor_name = ''my_sensor'', selector_id = ''sel'', external_origin_id = ''origin'',
      repository_selector_id = ''repo'', min_interval_seconds = Some 60,
      target_job = (\<lambda>n. Some \<lparr>job_name = ''my_job'', job_tags = Map.empty\<rparr>)\<rparr>"

definition example_data :: "timestamp option \<Rightarrow> timestamp option \<Rightarrow> sensor_instigator_data" where
  "example_data lt ls =
     \<lparr>last_tick_timestamp = lt, last_run_key = None, min_interval = Some 60,
      cursor = Some ''c0'', last_tick_start_timestamp = ls\<rparr>"

definition example_state :: "sensor_instigator_data option \<Rightarrow> instigator_state" where
  "example_state d =
     \<lparr>instigator_origin_id = ''origin'', state_selector_id = ''sel'',
      instigator_name = ''my_sensor'', instigator_data = d\<rparr>"

definition example_instance :: "instigator_state \<Rightarrow> dagster_run list \<Rightarrow> dagster_instance" where
  "example_instance st rs =
     \<lparr>instigator_states = [(''origin'', ''sel'') \<mapsto> st], runs = rs,
      dynamic_partitions = (\<lambda>n. {}), next_run_id = length rs, next_tick_id = 0, journal = []\<rparr>"

definition example_request :: "string option \<Rightarrow> run_request" where
  "example_request k =
     \<lparr>run_key = k, request_tags = Map.empty, request_job_name = None,
      asset_selection = None, stale_assets_only = False\<rparr>"

definition example_execution_data :: "run_request list \<Rightarrow> string option \<Rightarrow> sensor_execution_data" where
  "example_execution_data rrs c =
     \<lparr>run_requests = rrs, skip_message = None, data_cursor = c, dagster_run_reactions = [],
      captured_log_key = None, dynamic_partitions_requests = []\<rparr>"

definition example_context :: sensor_launch_context where
  "example_context =
     init_context example_sensor
       (started_tick (example_instance (example_state None) []) example_sensor
          (example_state None) 1000) []"

definition example_run :: "nat \<Rightarrow> string \<Rightarrow> run_status \<Rightarrow> dagster_run" where
  "example_run i k status =
     \<lparr>run_id = i, run_job_name = ''my_job'', run_status = status,
      run_tags = [SENSOR_NAME_TAG \<mapsto> ''my_sensor'', RUN_KEY_TAG \<mapsto> k],
      external_job_origin = Some ''repo''\<rparr>"


definition example_store :: dagster_instance where
  "example_store =
     example_instance (example_state (Some (example_data None None)))
       [example_run 0 ''k1'' RUN_SUCCESS, example_run 1 ''k2'' RUN_NOT_STARTED]"

text \<open>The scenario of the specification: two run requests, one with the run key \<open>k1\<close> and
  one with none, no prior runs; here every launch fails.\<close>

definition example_eval ::
  "py_exception option \<times> submit_run_request_result list \<times> sensor_launch_context
     \<times> dagster_instance" where
  "example_eval =
     evaluate_sensor example_context
       (example_instance (example_state (Some (example_data None None))) [])
       example_sensor (example_state (Some (example_data None None)))
       (\<lambda>a b c. EvalReturns
          (example_execution_data [example_request (Some ''k1''), example_request None]
             (Some ''c1'')))
       (\<lambda>r. Some (Exception ''launch failed'')) (\<lambda>rr. [])"

text \<open>One tick of the example sensor on a fresh state, at time 1000, with a retention of
  seven days for failed ticks.\<close>

definition example_tick ::
  "(timestamp option \<Rightarrow> string option \<Rightarrow> string option \<Rightarrow> evaluation)
     \<Rightarrow> tick_outcome \<times> submit_run_request_result list \<times> dagster_instance" where
  "example_tick evaluate =
     process_tick_generator
       (example_instance (example_state (Some (example_data None None))) [])
       example_sensor (example_state None) [(FAILURE, 7)] evaluate
       (\<lambda>r. None) (\<lambda>rr. []) 1000 1000 1001"

section \<open>Properties\<close>


subsection \<open>The example tick\<close>

text \<open>The definitions that the simplifier unfolds to evaluate the examples.\<close>

lemmas example_defs =
  example_tick_def example_eval_def example_context_def started_tick_def
  process_tick_generator_def claim_tick_def get_instigator_state_def
  is_under_min_interval_def mark_sensor_state_for_tick_def update_instigator_state_def
  create_tick_def init_context_def exit_ctx_def write_ctx_def FINISHED_TICK_STATES_def
  evaluate_sensor_def get_external_sensor_execution_data_def
  example_execution_data_def example_request_def example_instance_def
  example_state_def example_data_def example_sensor_def
  fetch_existing_runs_def requested_run_keys_def get_runs_def submit_run_request_def submit_run_def
  get_or_create_sensor_run_def create_sensor_run_def create_run_def merge_dicts_def
  tags_for_sensor_def serializable_error_info_from_exc_info_def record_call_def
  add_run_info_def with_run_info_def update_state_def with_status_def with_cursor_def
  with_reason_def run_count_def persisted_cursor_def persisted_last_run_key_def persisted_data_def
  Let_def

lemma example_stored:
  "get_instigator_state (example_instance (example_state (Some (example_data None None))) [])
       (external_origin_id example_sensor) (selector_id example_sensor)
     = Some (example_state (Some (example_data None None)))"
  "instigator_origin_id (example_state (Some (example_data None None)))
     = external_origin_id example_sensor"
  "state_selector_id (example_state (Some (example_data None None))) = selector_id example_sensor"
  "\<not> is_under_min_interval 1000 (example_state (Some (example_data None None))) example_sensor"
  by (simp_all add: get_instigator_state_def example_instance_def example_sensor_def
        example_state_def example_data_def is_under_min_interval_def)

lemma written_ticks_append:
  "written_ticks (xs @ ys) = written_ticks xs @ written_ticks ys"
  by (induction xs rule: written_ticks.induct) simp_all


subsection \<open>Throttle gate\<close>

lemma is_under_min_interval_char:
  "is_under_min_interval now state external_sensor \<longleftrightarrow>
     (\<exists>d m. instigator_data state = Some d
        \<and> (truthy_num (last_tick_timestamp d) \<or> truthy_num (last_tick_start_timestamp d))
        \<and> min_interval_seconds external_sensor = Some m \<and> m \<noteq> 0
        \<and> now - max (or_zero (last_tick_timestamp d)) (or_zero (last_tick_start_timestamp d)) < of_int m)"
  by (cases "min_interval_seconds external_sensor")
     (auto simp: is_under_min_interval_def split: option.splits)

text \<open>
  C3, as the code has it. \<open>is_under_min_interval\<close> is a function of the clock reading, the
  state and the sensor. It is true exactly when the state carries data, at least one of the two
  timestamps is set (not \<open>None\<close> and not zero), the sensor's minimum interval is set (not
  \<open>None\<close> and not zero) and \<open>now - max (last_tick_timestamp or 0) (last_tick_start_timestamp or
  0)\<close> is below the interval. So it is false when both timestamps are absent and when no
  interval is configured; one absent timestamp counts as 0 in the maximum and does not by
  itself stop the throttle.
\<close>

theorem is_under_min_interval_iff:
  "(is_under_min_interval now state external_sensor \<longleftrightarrow>
     (\<exists>d m. instigator_data state = Some d
        \<and> (truthy_num (last_tick_timestamp d) \<or> truthy_num (last_tick_start_timestamp d))
        \<and> min_interval_seconds external_sensor = Some m \<and> m \<noteq> 0
        \<and> now - max (or_zero (last_tick_timestamp d)) (or_zero (last_tick_start_timestamp d))
              < of_int m))
   \<and> (instigator_data state = Some d' \<and> \<not> truthy_num (last_tick_timestamp d')
         \<and> \<not> truthy_num (last_tick_start_timestamp d')
       \<longrightarrow> \<not> is_under_min_interval now state external_sensor)
   \<and> (\<not> truthy_num (min_interval_seconds external_sensor)
       \<longrightarrow> \<not> is_under_min_interval now state external_sensor)"
proof (intro conjI impI)
  show "is_under_min_interval now state external_sensor \<longleftrightarrow>
     (\<exists>d m. instigator_data state = Some d
        \<and> (truthy_num (last_tick_timestamp d) \<or> truthy_num (last_tick_start_timestamp d))
        \<and> min_interval_seconds external_sensor = Some m \<and> m \<noteq> 0
        \<and> now - max (or_zero (last_tick_timestamp d)) (or_zero (last_tick_start_timestamp d))
              < of_int m)"
    by (rule is_under_min_interval_char)
next
  assume "instigator_data state = Some d' \<and> \<not> truthy_num (last_tick_timestamp d')
         \<and> \<not> truthy_num (last_tick_start_timestamp d')"
  then show "\<not> is_under_min_interval now state external_sensor"
    by (simp add: is_under_min_interval_def)
next
  assume "\<not> truthy_num (min_interval_seconds external_sensor)"
  then show "\<not> is_under_min_interval now state external_sensor"
    by (cases "min_interval_seconds external_sensor") (auto simp: is_under_min_interval_char)
qed

text \<open>The scenario of the specification: an interval of 60 and a last tick at 1000; throttled
  at 1030, free at 1061, and free when neither timestamp is set.\<close>

theorem is_under_min_interval_iff_witness:
  "is_under_min_interval 1030 (example_state (Some (example_data (Some 1000) None))) example_sensor
   \<and> \<not> is_under_min_interval 1061 (example_state (Some (example_data (Some 1000) None))) example_sensor
   \<and> \<not> is_under_min_interval 1030 (example_state (Some (example_data None None))) example_sensor"
  using is_under_min_interval_iff
          [of 1030 "example_state (Some (example_data (Some 1000) None))" example_sensor
              "example_data (Some 1000) None"]
    is_under_min_interval_iff
          [of 1061 "example_state (Some (example_data (Some 1000) None))" example_sensor
              "example_data (Some 1000) None"]
    is_under_min_interval_iff
          [of 1030 "example_state (Some (example_data None None))" example_sensor
              "example_data None None"]
  by (simp add: example_state_def example_data_def example_sensor_def)

text \<open>C3 as stated fails: with \<open>last_tick_start_timestamp\<close> absent and a last tick at 100,
  the gate is closed at 130 for an interval of 60.\<close>

theorem is_under_min_interval_absent_timestamp_counterexample:
  "last_tick_start_timestamp (example_data (Some 100) None) = None
   \<and> is_under_min_interval 130 (example_state (Some (example_data (Some 100) None))) example_sensor"
  by (simp add: is_under_min_interval_def example_state_def example_data_def example_sensor_def)

subsection \<open>The claim under the lock\<close>

lemma get_after_mark:
  assumes "instigator_origin_id st = external_origin_id s" "state_selector_id st = selector_id s"
  shows "get_instigator_state (mark_sensor_state_for_tick inst s st now) (external_origin_id s) (selector_id s)
     = Some (st\<lparr>instigator_data := Some
          \<lparr>last_tick_timestamp =
             (case instigator_data st of None \<Rightarrow> None | Some d \<Rightarrow> last_tick_timestamp d),
           last_run_key =
             (case instigator_data st of None \<Rightarrow> None | Some d \<Rightarrow> last_run_key d),
           min_interval = min_interval_seconds s,
           cursor = (case instigator_data st of None \<Rightarrow> None | Some d \<Rightarrow> cursor d),
           last_tick_start_timestamp = Some now\<rparr>\<rparr>)"
  using assms
  by (simp add: mark_sensor_state_for_tick_def update_instigator_state_def get_instigator_state_def)





subsection \<open>The journal of a tick\<close>

lemma journal_update_instigator_state [simp]:
  "journal (update_instigator_state inst st) = journal inst"
  by (simp add: update_instigator_state_def)

lemma journal_record_call [simp]: "journal (record_call c inst) = journal inst @ [c]"
  by (simp add: record_call_def)

lemma get_record_call [simp]:
  "get_instigator_state (record_call c inst) a b = get_instigator_state inst a b"
  by (simp add: record_call_def get_instigator_state_def)

lemma journal_purge_ticks_loop:
  "\<exists>ps. journal (purge_ticks_loop s now settings inst) = journal inst @ ps \<and> list_all is_PurgeTicks ps"
proof (induction settings arbitrary: inst)
  case Nil
  then show ?case by simp
next
  case (Cons a settings)
  obtain d ss where a: "a = (d, ss)" by (cases a)
  show ?case
  proof (cases "d \<le> 0")
    case True
    then show ?thesis using Cons.IH[of inst] a by simp
  next
    case False
    let ?c = "PurgeTicks (external_origin_id s) (selector_id s) (now - 86400 * of_int d) ss"
    obtain ps where "journal (purge_ticks_loop s now settings (record_call ?c inst))
        = journal (record_call ?c inst) @ ps" "list_all is_PurgeTicks ps"
      using Cons.IH[of "record_call ?c inst"] by blast
    then show ?thesis using False a by (intro exI[of _ "?c # ps"]) simp
  qed
qed

lemma journal_write_ctx:
  "journal (snd (write_ctx context inst)) = journal inst @ [UpdateTick (ctx_tick context)]"
  by (simp add: write_ctx_def Let_def split: option.splits)

lemma states_purge_ticks_loop [simp]:
  "instigator_states (purge_ticks_loop s now settings inst) = instigator_states inst"
  by (induction settings arbitrary: inst) (auto simp: record_call_def)

lemma exit_ctx_journal:
  assumes "exception_value \<noteq> Some KeyboardInterrupt"
  shows "\<exists>ps. journal (snd (snd (exit_ctx context inst exception_value now)))
           = journal inst @ UpdateTick (ctx_tick (fst (exit_ctx context inst exception_value now))) # ps
         \<and> list_all is_PurgeTicks ps"
proof -
  define context1 where "context1 =
              (case exception_value of
                 None \<Rightarrow> context
               | Some e \<Rightarrow>
                   if e = GeneratorExit then context
                   else update_state context FAILURE
                          (Some (serializable_error_info_from_exc_info e)) None None None)"
  obtain r inst1 where w: "write_ctx context1 inst = (r, inst1)" by (cases "write_ctx context1 inst")
  have j1: "journal inst1 = journal inst @ [UpdateTick (ctx_tick context1)]"
    using journal_write_ctx[of context1 inst] w by simp
  show ?thesis
  proof (cases r)
    case None
    obtain ps where "journal (purge_ticks_loop (ctx_external_sensor context1) now (purge_settings context1) inst1)
        = journal inst1 @ ps" "list_all is_PurgeTicks ps"
      using journal_purge_ticks_loop by blast
    then show ?thesis using assms w None j1
      by (intro exI[of _ ps]) (simp add: exit_ctx_def context1_def[symmetric])
  next
    case (Some e)
    then show ?thesis using assms w j1
      by (intro exI[of _ "[]"]) (simp add: exit_ctx_def context1_def[symmetric])
  qed
qed

lemma exit_ctx_failure_tick:
  assumes "e \<noteq> KeyboardInterrupt" "e \<noteq> GeneratorExit"
  shows "ctx_tick (fst (exit_ctx context inst (Some e) now))
           = with_status (ctx_tick context) FAILURE (Some (serializable_error_info_from_exc_info e))"
  using assms by (simp add: exit_ctx_def update_state_def Let_def split: prod.splits option.splits)


lemma process_tick_generator_claimed:
  assumes stored: "get_instigator_state inst (external_origin_id s) (selector_id s) = Some st"
    and free: "\<not> is_under_min_interval gate st s"
  shows "process_tick_generator inst s cached settings evaluate launch resolve_stale now gate now_exit =
     (case create_tick (mark_sensor_state_for_tick inst s st now) (instigator_origin_id st)
            (instigator_name st) STARTED now (selector_id s) of
        (t, inst2) \<Rightarrow>
          (case evaluate_sensor (init_context s t settings) inst2 s st evaluate launch resolve_stale of
             (exc, results, context1, inst3) \<Rightarrow>
               (case exit_ctx context1 inst3 exc now_exit of
                  (context2, None, inst4) \<Rightarrow> (TickYielded None, results, inst4)
                | (context2, Some e, inst4) \<Rightarrow>
                    if is_Exception e
                    then (TickYielded (Some (serializable_error_info_from_exc_info e)), results,
                          record_call (LogError ''Sensor daemon caught an error'') inst4)
                    else (TickRaised e, results, inst4))))"
  using stored free by (simp add: process_tick_generator_def claim_tick_def)

lemma create_tick_after_mark:
  "create_tick (mark_sensor_state_for_tick inst s st now) (instigator_origin_id st)
            (instigator_name st) STARTED now (selector_id s)
   = (started_tick inst s st now,
      record_call (CreateTick (started_tick inst s st now))
        ((mark_sensor_state_for_tick inst s st now)\<lparr>next_tick_id := Suc (next_tick_id inst)\<rparr>))"
  by (simp add: create_tick_def started_tick_def mark_sensor_state_for_tick_def update_instigator_state_def Let_def)

text \<open>
  C2. When the claim succeeds and the evaluation call raises an exception other than
  \<^verbatim>\<open>KeyboardInterrupt\<close> (and other than \<^verbatim>\<open>GeneratorExit\<close>, which the evaluation call
  does not raise), what the attempt adds to the journal is: the creation of the tick in
  \<open>STARTED\<close>, then one write of that tick in \<open>FAILURE\<close> with the error of the exception, then
  purges only, then at most the log entry of the daemon. So the tick is written exactly once, as
  a failure with an error, before any purge.
\<close>

theorem tick_write_guaranteed:
  assumes stored: "get_instigator_state inst (external_origin_id s) (selector_id s) = Some st"
    and free: "\<not> is_under_min_interval gate st s"
    and raises: "get_external_sensor_execution_data evaluate st = EvalRaises e"
    and e: "e \<noteq> KeyboardInterrupt" "e \<noteq> GeneratorExit"
  shows "\<exists>t t' ps rest.
     journal (snd (snd (process_tick_generator inst s cached settings evaluate launch resolve_stale
                          now gate now_exit)))
       = journal inst @ [CreateTick t, UpdateTick t'] @ ps @ rest
     \<and> tick_status t = STARTED
     \<and> tick_id t' = tick_id t
     \<and> tick_status t' = FAILURE
     \<and> error t' = Some (serializable_error_info_from_exc_info e)
     \<and> list_all is_PurgeTicks ps
     \<and> set rest \<subseteq> {LogError ''Sensor daemon caught an error''}"
proof -
  let ?t = "started_tick inst s st now"
  let ?inst2 = "record_call (CreateTick ?t)
        ((mark_sensor_state_for_tick inst s st now)\<lparr>next_tick_id := Suc (next_tick_id inst)\<rparr>)"
  let ?ctx = "init_context s ?t settings"
  have ev: "evaluate_sensor ?ctx ?inst2 s st evaluate launch resolve_stale = (Some e, [], ?ctx, ?inst2)"
    using raises by (simp add: evaluate_sensor_def)
  obtain context2 exc2 inst4 where x: "exit_ctx ?ctx ?inst2 (Some e) now_exit = (context2, exc2, inst4)"
    by (cases "exit_ctx ?ctx ?inst2 (Some e) now_exit")
  have "Some e \<noteq> Some KeyboardInterrupt" using e by simp
  from exit_ctx_journal[OF this, of ?ctx ?inst2 now_exit] x
  obtain ps where ps: "journal inst4 = journal ?inst2 @ UpdateTick (ctx_tick context2) # ps"
      "list_all is_PurgeTicks ps"
    by auto
  have t2: "ctx_tick context2 = with_status ?t FAILURE (Some (serializable_error_info_from_exc_info e))"
    using exit_ctx_failure_tick[OF e, of ?ctx ?inst2 now_exit] x by (simp add: init_context_def)
  have j2: "journal ?inst2 = journal inst @ [CreateTick ?t]"
    by (simp add: mark_sensor_state_for_tick_def)
  have p: "process_tick_generator inst s cached settings evaluate launch resolve_stale now gate now_exit =
     (case exc2 of None \<Rightarrow> (TickYielded None, [], inst4)
      | Some e' \<Rightarrow> if is_Exception e'
                    then (TickYielded (Some (serializable_error_info_from_exc_info e')), [],
                          record_call (LogError ''Sensor daemon caught an error'') inst4)
                    else (TickRaised e', [], inst4))"
    unfolding process_tick_generator_claimed[OF stored free] create_tick_after_mark
    by (simp add: ev x)
  let ?t' = "with_status ?t FAILURE (Some (serializable_error_info_from_exc_info e))"
  have st: "tick_status ?t = STARTED" "tick_id ?t' = tick_id ?t" "tick_status ?t' = FAILURE"
    "error ?t' = Some (serializable_error_info_from_exc_info e)"
    by (simp_all add: started_tick_def with_status_def)
  show ?thesis
  proof (cases "\<exists>e'. exc2 = Some e' \<and> is_Exception e'")
    case True
    then show ?thesis using p ps t2 j2 st
      by (intro exI[of _ ?t] exI[of _ ?t'] exI[of _ ps]
            exI[of _ "[LogError ''Sensor daemon caught an error'']"]) auto
  next
    case False
    then show ?thesis using p ps t2 j2 st
      by (intro exI[of _ ?t] exI[of _ ?t'] exI[of _ ps] exI[of _ "[]"]) (auto split: option.splits)
  qed
qed

theorem tick_write_guaranteed_witness:
  "get_instigator_state (example_instance (example_state (Some (example_data None None))) [])
       (external_origin_id example_sensor) (selector_id example_sensor)
     = Some (example_state (Some (example_data None None)))
   \<and> \<not> is_under_min_interval 1000 (example_state (Some (example_data None None))) example_sensor
   \<and> (\<exists>t t' ps rest.
        journal (snd (snd (example_tick (\<lambda>a b c. EvalRaises (Exception ''boom'')))))
          = journal (example_instance (example_state (Some (example_data None None))) [])
            @ [CreateTick t, UpdateTick t'] @ ps @ rest
        \<and> tick_status t = STARTED
        \<and> tick_id t' = tick_id t
        \<and> tick_status t' = FAILURE
        \<and> error t' = Some (serializable_error_info_from_exc_info (Exception ''boom''))
        \<and> list_all is_PurgeTicks ps
        \<and> set rest \<subseteq> {LogError ''Sensor daemon caught an error''})
   \<and> map tick_status
        (written_ticks (journal (snd (snd (example_tick (\<lambda>a b c. EvalRaises (Exception ''boom'')))))))
      = [FAILURE]"
proof -
  have raises: "get_external_sensor_execution_data (\<lambda>a b c. EvalRaises (Exception ''boom''))
      (example_state (Some (example_data None None))) = EvalRaises (Exception ''boom'')"
    by (simp add: get_external_sensor_execution_data_def)
  have e: "Exception ''boom'' \<noteq> KeyboardInterrupt" "Exception ''boom'' \<noteq> GeneratorExit"
    by simp_all
  note T = tick_write_guaranteed [OF example_stored(1) example_stored(4) raises e,
      of "example_state None" "[(FAILURE, 7)]" "\<lambda>r. None" "\<lambda>rr. []" 1000 1001]
  have w: "map tick_status
        (written_ticks (journal (snd (snd (example_tick (\<lambda>a b c. EvalRaises (Exception ''boom'')))))))
      = [FAILURE]"
    by (simp add: example_defs)
  show ?thesis
    using example_stored(1,4) T w unfolding example_tick_def by blast
qed

subsection \<open>The cursor of a skipped tick\<close>

lemma persisted_data_record_call [simp]:
  "persisted_data (record_call c inst) s = persisted_data inst s"
  by (simp add: persisted_data_def)

lemma persisted_data_purge [simp]:
  "persisted_data (purge_ticks_loop s' now settings inst) s = persisted_data inst s"
  by (simp add: persisted_data_def get_instigator_state_def)


lemma write_ctx_commit:
  assumes stored: "get_instigator_state inst (external_origin_id s) (selector_id s) = Some st"
    and data: "instigator_data st = Some d"
    and key: "instigator_origin_id st = external_origin_id s" "state_selector_id st = selector_id s"
    and s: "ctx_external_sensor context = s"
    and fin: "tick_status (ctx_tick context) \<in> {SKIPPED, SUCCESS, FAILURE}"
  shows "fst (write_ctx context inst) = None"
    and "persisted_cursor (snd (write_ctx context inst)) s
           = (if tick_status (ctx_tick context) \<noteq> FAILURE \<or> should_update_cursor_on_failure context
              then tick_cursor (ctx_tick context) else cursor d)"
    and "persisted_last_run_key (snd (write_ctx context inst)) s
           = (if run_keys (ctx_tick context) \<noteq> []
                 \<and> (tick_status (ctx_tick context) \<noteq> FAILURE \<or> should_update_cursor_on_failure context)
              then Some (last (run_keys (ctx_tick context))) else last_run_key d)"
  using assms
  by (auto simp: write_ctx_def Let_def persisted_cursor_def persisted_last_run_key_def
        persisted_data_def get_instigator_state_def update_instigator_state_def record_call_def
        FINISHED_TICK_STATES_def split: option.splits)

lemma update_state_cursor:
  "tick_cursor (ctx_tick (update_state context status err reason c o_id))
     = (if truthy_str c then c else tick_cursor (ctx_tick context))"
  by (simp add: update_state_def Let_def with_status_def with_reason_def with_cursor_def
        with_origin_run_def split: option.splits)

lemma update_state_status:
  "tick_status (ctx_tick (update_state context status err reason c o_id)) = status"
  by (simp add: update_state_def Let_def with_status_def with_reason_def with_cursor_def
        with_origin_run_def split: option.splits)

lemma update_state_frame [simp]:
  "ctx_external_sensor (update_state context status err reason c o_id) = ctx_external_sensor context"
  "should_update_cursor_on_failure (update_state context status err reason c o_id)
     = should_update_cursor_on_failure context"
  "purge_settings (update_state context status err reason c o_id) = purge_settings context"
  by (simp_all add: update_state_def Let_def)

lemma exit_ctx_persisted_data:
  assumes "exception_value \<noteq> Some KeyboardInterrupt"
  shows "persisted_data (snd (snd (exit_ctx context inst exception_value now))) s
     = persisted_data (snd (write_ctx (fst (exit_ctx context inst exception_value now)) inst)) s"
  using assms
  by (simp add: exit_ctx_def Let_def split: prod.splits option.splits)




lemma delete_loop_frame [simp]:
  "instigator_states (delete_dynamic_partitions_loop inst name ks) = instigator_states inst"
  "journal (delete_dynamic_partitions_loop inst name ks) = journal inst"
  "runs (delete_dynamic_partitions_loop inst name ks) = runs inst"
  "next_tick_id (delete_dynamic_partitions_loop inst name ks) = next_tick_id inst"
  "next_run_id (delete_dynamic_partitions_loop inst name ks) = next_run_id inst"
  by (induction ks arbitrary: inst) (simp_all add: delete_dynamic_partition_def)

lemma apply_request_frame:
  "instigator_states (snd (apply_dynamic_partitions_request r ci)) = instigator_states (snd ci)
   \<and> journal (snd (apply_dynamic_partitions_request r ci)) = journal (snd ci)
   \<and> runs (snd (apply_dynamic_partitions_request r ci)) = runs (snd ci)
   \<and> next_run_id (snd (apply_dynamic_partitions_request r ci)) = next_run_id (snd ci)
   \<and> ctx_external_sensor (fst (apply_dynamic_partitions_request r ci)) = ctx_external_sensor (fst ci)
   \<and> should_update_cursor_on_failure (fst (apply_dynamic_partitions_request r ci))
        = should_update_cursor_on_failure (fst ci)
   \<and> purge_settings (fst (apply_dynamic_partitions_request r ci)) = purge_settings (fst ci)
   \<and> tick_cursor (ctx_tick (fst (apply_dynamic_partitions_request r ci))) = tick_cursor (ctx_tick (fst ci))
   \<and> tick_timestamp (ctx_tick (fst (apply_dynamic_partitions_request r ci)))
        = tick_timestamp (ctx_tick (fst ci))
   \<and> run_ids (ctx_tick (fst (apply_dynamic_partitions_request r ci))) = run_ids (ctx_tick (fst ci))
   \<and> run_keys (ctx_tick (fst (apply_dynamic_partitions_request r ci))) = run_keys (ctx_tick (fst ci))
   \<and> tick_id (ctx_tick (fst (apply_dynamic_partitions_request r ci))) = tick_id (ctx_tick (fst ci))"
  by (cases r; cases ci;
      simp add: Let_def add_dynamic_partitions_request_result_def
        with_dynamic_partitions_request_result_def add_dynamic_partitions_def)

lemma apply_requests_frame:
  "instigator_states (snd (apply_dynamic_partitions_requests rs ci)) = instigator_states (snd ci)
   \<and> journal (snd (apply_dynamic_partitions_requests rs ci)) = journal (snd ci)
   \<and> runs (snd (apply_dynamic_partitions_requests rs ci)) = runs (snd ci)
   \<and> next_run_id (snd (apply_dynamic_partitions_requests rs ci)) = next_run_id (snd ci)
   \<and> ctx_external_sensor (fst (apply_dynamic_partitions_requests rs ci)) = ctx_external_sensor (fst ci)
   \<and> should_update_cursor_on_failure (fst (apply_dynamic_partitions_requests rs ci))
        = should_update_cursor_on_failure (fst ci)
   \<and> purge_settings (fst (apply_dynamic_partitions_requests rs ci)) = purge_settings (fst ci)
   \<and> tick_cursor (ctx_tick (fst (apply_dynamic_partitions_requests rs ci))) = tick_cursor (ctx_tick (fst ci))
   \<and> tick_timestamp (ctx_tick (fst (apply_dynamic_partitions_requests rs ci)))
        = tick_timestamp (ctx_tick (fst ci))
   \<and> run_ids (ctx_tick (fst (apply_dynamic_partitions_requests rs ci))) = run_ids (ctx_tick (fst ci))
   \<and> run_keys (ctx_tick (fst (apply_dynamic_partitions_requests rs ci))) = run_keys (ctx_tick (fst ci))
   \<and> tick_id (ctx_tick (fst (apply_dynamic_partitions_requests rs ci))) = tick_id (ctx_tick (fst ci))"
proof (induction rs arbitrary: ci)
  case Nil
  then show ?case by simp
next
  case (Cons r rs)
  show ?case
    using Cons.IH[of "apply_dynamic_partitions_request r ci"] apply_request_frame[of r ci]
    by simp
qed

lemma add_log_info_frame [simp]:
  "ctx_external_sensor (add_log_info c k) = ctx_external_sensor c"
  "should_update_cursor_on_failure (add_log_info c k) = should_update_cursor_on_failure c"
  "purge_settings (add_log_info c k) = purge_settings c"
  "tick_cursor (ctx_tick (add_log_info c k)) = tick_cursor (ctx_tick c)"
  "tick_timestamp (ctx_tick (add_log_info c k)) = tick_timestamp (ctx_tick c)"
  "run_ids (ctx_tick (add_log_info c k)) = run_ids (ctx_tick c)"
  "run_keys (ctx_tick (add_log_info c k)) = run_keys (ctx_tick c)"
  "tick_id (ctx_tick (add_log_info c k)) = tick_id (ctx_tick c)"
  by (simp_all add: add_log_info_def with_log_key_def)

text \<open>The path of \<open>evaluate_sensor\<close> with no run requests and no reactions.\<close>

lemma evaluate_sensor_skip:
  assumes ev: "get_external_sensor_execution_data evaluate st = EvalReturns data"
    and none: "run_requests data = []" "dagster_run_reactions data = []"
  shows "\<exists>c2 inst2 reason. evaluate_sensor c inst s st evaluate launch resolve_stale
            = (None, [], update_state c2 SKIPPED None reason (data_cursor data) None, inst2)
          \<and> instigator_states inst2 = instigator_states inst
          \<and> journal inst2 = journal inst
          \<and> runs inst2 = runs inst
          \<and> ctx_external_sensor c2 = ctx_external_sensor c
          \<and> should_update_cursor_on_failure c2 = should_update_cursor_on_failure c
          \<and> purge_settings c2 = purge_settings c
          \<and> tick_cursor (ctx_tick c2) = tick_cursor (ctx_tick c)
          \<and> tick_timestamp (ctx_tick c2) = tick_timestamp (ctx_tick c)
          \<and> run_keys (ctx_tick c2) = run_keys (ctx_tick c)
          \<and> tick_id (ctx_tick c2) = tick_id (ctx_tick c)"
proof -
  let ?c1 = "(case captured_log_key data of
                    None \<Rightarrow> c
                  | Some k \<Rightarrow> if k = [] then c else add_log_info c k)"
  let ?r = "apply_dynamic_partitions_requests (dynamic_partitions_requests data) (?c1, inst)"
  have c1: "ctx_external_sensor ?c1 = ctx_external_sensor c"
    "should_update_cursor_on_failure ?c1 = should_update_cursor_on_failure c"
    "purge_settings ?c1 = purge_settings c"
    "tick_cursor (ctx_tick ?c1) = tick_cursor (ctx_tick c)"
    "tick_timestamp (ctx_tick ?c1) = tick_timestamp (ctx_tick c)"
    "run_keys (ctx_tick ?c1) = run_keys (ctx_tick c)"
    "tick_id (ctx_tick ?c1) = tick_id (ctx_tick c)"
    by (simp_all split: option.splits)
  have e: "evaluate_sensor c inst s st evaluate launch resolve_stale
            = (None, [], update_state (fst ?r) SKIPPED None
                 (if truthy_str (skip_message data) then skip_message data else None)
                 (data_cursor data) None, snd ?r)"
    using ev none by (simp add: evaluate_sensor_def Let_def split: prod.splits)
  show ?thesis
    using e apply_requests_frame[of "dynamic_partitions_requests data" "(?c1, inst)"] c1
    by (intro exI[of _ "fst ?r"] exI[of _ "snd ?r"]
          exI[of _ "if truthy_str (skip_message data) then skip_message data else None"]) simp
qed


lemma get_instigator_state_cong:
  "instigator_states a = instigator_states b \<Longrightarrow> get_instigator_state a x y = get_instigator_state b x y"
  by (simp add: get_instigator_state_def)

lemma exit_ctx_commit:
  assumes stored: "get_instigator_state inst (external_origin_id s) (selector_id s) = Some st"
    and data: "instigator_data st = Some d"
    and key: "instigator_origin_id st = external_origin_id s" "state_selector_id st = selector_id s"
    and s: "ctx_external_sensor c = s"
    and fin: "tick_status (ctx_tick c) \<in> {SKIPPED, SUCCESS, FAILURE}"
  shows "fst (exit_ctx c inst None now) = c"
    and "fst (snd (exit_ctx c inst None now)) = None"
    and "persisted_cursor (snd (snd (exit_ctx c inst None now))) s
           = (if tick_status (ctx_tick c) \<noteq> FAILURE \<or> should_update_cursor_on_failure c
              then tick_cursor (ctx_tick c) else cursor d)"
    and "persisted_last_run_key (snd (snd (exit_ctx c inst None now))) s
           = (if run_keys (ctx_tick c) \<noteq> []
                 \<and> (tick_status (ctx_tick c) \<noteq> FAILURE \<or> should_update_cursor_on_failure c)
              then Some (last (run_keys (ctx_tick c))) else last_run_key d)"
proof -
  show c: "fst (exit_ctx c inst None now) = c"
    by (simp add: exit_ctx_def split: prod.splits option.splits)
  have w: "fst (write_ctx c inst) = None"
    using write_ctx_commit(1)[OF stored data key s fin] .
  then show "fst (snd (exit_ctx c inst None now)) = None"
    by (cases "write_ctx c inst") (simp add: exit_ctx_def)
  have pd: "persisted_data (snd (snd (exit_ctx c inst None now))) s = persisted_data (snd (write_ctx c inst)) s"
    using exit_ctx_persisted_data[of None c inst now s] c by simp
  show "persisted_cursor (snd (snd (exit_ctx c inst None now))) s
           = (if tick_status (ctx_tick c) \<noteq> FAILURE \<or> should_update_cursor_on_failure c
              then tick_cursor (ctx_tick c) else cursor d)"
    using write_ctx_commit(2)[OF stored data key s fin] pd by (simp add: persisted_cursor_def)
  show "persisted_last_run_key (snd (snd (exit_ctx c inst None now))) s
           = (if run_keys (ctx_tick c) \<noteq> []
                 \<and> (tick_status (ctx_tick c) \<noteq> FAILURE \<or> should_update_cursor_on_failure c)
              then Some (last (run_keys (ctx_tick c))) else last_run_key d)"
    using write_ctx_commit(3)[OF stored data key s fin] pd by (simp add: persisted_last_run_key_def)
qed

text \<open>
  C9, as the code has it. When the claim succeeds for a state stored under the sensor's key and
  the evaluation returns no run requests and no reactions, the tick created in \<open>STARTED\<close> is
  written once in \<open>SKIPPED\<close>, and the cursor of that tick is committed to the persisted state:
  it is the cursor returned by the evaluation when that is a non-empty string, and \<open>None\<close>
  when the evaluation returned \<open>None\<close> or the empty string.
\<close>

theorem skip_commits_cursor:
  assumes stored: "get_instigator_state inst (external_origin_id s) (selector_id s) = Some st"
    and key: "instigator_origin_id st = external_origin_id s" "state_selector_id st = selector_id s"
    and free: "\<not> is_under_min_interval gate st s"
    and ev: "get_external_sensor_execution_data evaluate st = EvalReturns data"
    and none: "run_requests data = []" "dagster_run_reactions data = []"
  shows "\<exists>t ps.
     fst (process_tick_generator inst s cached settings evaluate launch resolve_stale now gate now_exit)
       = TickYielded None
     \<and> journal (snd (snd (process_tick_generator inst s cached settings evaluate launch resolve_stale
                             now gate now_exit)))
        = journal inst @ [CreateTick (started_tick inst s st now), UpdateTick t] @ ps
     \<and> list_all is_PurgeTicks ps
     \<and> tick_id t = tick_id (started_tick inst s st now)
     \<and> tick_status (started_tick inst s st now) = STARTED
     \<and> tick_status t = SKIPPED
     \<and> tick_cursor t = (if truthy_str (data_cursor data) then data_cursor data else None)
     \<and> persisted_cursor (snd (snd (process_tick_generator inst s cached settings evaluate launch
                                       resolve_stale now gate now_exit))) s
        = tick_cursor t"
proof -
  let ?t = "started_tick inst s st now"
  let ?inst1 = "mark_sensor_state_for_tick inst s st now"
  let ?inst2 = "record_call (CreateTick ?t) (?inst1\<lparr>next_tick_id := Suc (next_tick_id inst)\<rparr>)"
  let ?ctx = "init_context s ?t settings"
  obtain c2 inst3 reason where
    e: "evaluate_sensor ?ctx ?inst2 s st evaluate launch resolve_stale
            = (None, [], update_state c2 SKIPPED None reason (data_cursor data) None, inst3)"
    and fr: "instigator_states inst3 = instigator_states ?inst2" "journal inst3 = journal ?inst2"
      "ctx_external_sensor c2 = ctx_external_sensor ?ctx"
      "tick_cursor (ctx_tick c2) = tick_cursor (ctx_tick ?ctx)"
      "tick_id (ctx_tick c2) = tick_id (ctx_tick ?ctx)"
    using evaluate_sensor_skip[OF ev none, of ?ctx ?inst2 s launch resolve_stale] by blast
  let ?c3 = "update_state c2 SKIPPED None reason (data_cursor data) None"
  have g1: "get_instigator_state ?inst1 (external_origin_id s) (selector_id s)
      = Some (st\<lparr>instigator_data := Some
          \<lparr>last_tick_timestamp =
             (case instigator_data st of None \<Rightarrow> None | Some d \<Rightarrow> last_tick_timestamp d),
           last_run_key =
             (case instigator_data st of None \<Rightarrow> None | Some d \<Rightarrow> last_run_key d),
           min_interval = min_interval_seconds s,
           cursor = (case instigator_data st of None \<Rightarrow> None | Some d \<Rightarrow> cursor d),
           last_tick_start_timestamp = Some now\<rparr>\<rparr>)" (is "_ = Some ?st1")
    using key by (rule get_after_mark)
  have "instigator_states inst3 = instigator_states ?inst1"
    using fr(1) by (simp add: record_call_def)
  then have g3: "get_instigator_state inst3 (external_origin_id s) (selector_id s) = Some ?st1"
    using g1 get_instigator_state_cong by metis
  have c3s: "ctx_external_sensor ?c3 = s"
    using fr(3) by (simp add: init_context_def)
  have fin: "tick_status (ctx_tick ?c3) \<in> {SKIPPED, SUCCESS, FAILURE}"
    by (simp add: update_state_status)
  have k1: "instigator_origin_id ?st1 = external_origin_id s" "state_selector_id ?st1 = selector_id s"
    using key by simp_all
  have d1: "instigator_data ?st1 = Some
          \<lparr>last_tick_timestamp =
             (case instigator_data st of None \<Rightarrow> None | Some d \<Rightarrow> last_tick_timestamp d),
           last_run_key =
             (case instigator_data st of None \<Rightarrow> None | Some d \<Rightarrow> last_run_key d),
           min_interval = min_interval_seconds s,
           cursor = (case instigator_data st of None \<Rightarrow> None | Some d \<Rightarrow> cursor d),
           last_tick_start_timestamp = Some now\<rparr>"
    by simp
  note ex = exit_ctx_commit[OF g3 d1 k1 c3s fin, of now_exit]
  obtain ps where ps: "journal (snd (snd (exit_ctx ?c3 inst3 None now_exit)))
           = journal inst3 @ UpdateTick (ctx_tick (fst (exit_ctx ?c3 inst3 None now_exit))) # ps"
         "list_all is_PurgeTicks ps"
    using exit_ctx_journal[of None ?c3 inst3 now_exit] by auto
  have p: "process_tick_generator inst s cached settings evaluate launch resolve_stale now gate now_exit
      = (TickYielded None, [], snd (snd (exit_ctx ?c3 inst3 None now_exit)))"
  proof -
    obtain x a b where x: "exit_ctx ?c3 inst3 None now_exit = (x, a, b)"
      by (cases "exit_ctx ?c3 inst3 None now_exit")
    with ex(2) have a: "a = None" by simp
    show ?thesis
      unfolding process_tick_generator_claimed[OF stored free] create_tick_after_mark
      by (simp add: e x a)
  qed
  have j2: "journal ?inst2 = journal inst @ [CreateTick ?t]"
    by (simp add: mark_sensor_state_for_tick_def)
  have tc: "tick_cursor (ctx_tick ?c3) = (if truthy_str (data_cursor data) then data_cursor data else None)"
    using fr(4) by (simp add: update_state_cursor init_context_def started_tick_def)
  have tid: "tick_id (ctx_tick ?c3) = tick_id ?t"
    using fr(5) by (simp add: update_state_def Let_def with_status_def with_reason_def with_cursor_def
        init_context_def)
  show ?thesis
    using p ps ex(1) ex(3) j2 fr(2) tc tid
    by (intro exI[of _ "ctx_tick ?c3"] exI[of _ ps])
       (simp add: update_state_status started_tick_def)
qed

theorem skip_commits_cursor_witness:
  "get_instigator_state (example_instance (example_state (Some (example_data None None))) [])
       (external_origin_id example_sensor) (selector_id example_sensor)
     = Some (example_state (Some (example_data None None)))
   \<and> \<not> is_under_min_interval 1000 (example_state (Some (example_data None None))) example_sensor
   \<and> run_requests (example_execution_data [] (Some ''c1'')) = []
   \<and> dagster_run_reactions (example_execution_data [] (Some ''c1'')) = []
   \<and> fst (example_tick (\<lambda>a b c. EvalReturns (example_execution_data [] (Some ''c1''))))
       = TickYielded None
   \<and> persisted_cursor
        (snd (snd (example_tick (\<lambda>a b c. EvalReturns (example_execution_data [] (Some ''c1''))))))
        example_sensor = Some ''c1''
   \<and> map tick_status (written_ticks (journal
        (snd (snd (example_tick (\<lambda>a b c. EvalReturns (example_execution_data [] (Some ''c1''))))))))
       = [SKIPPED]"
proof -
  let ?data = "example_execution_data [] (Some ''c1'')"
  have ev: "get_external_sensor_execution_data (\<lambda>a b c. EvalReturns ?data)
      (example_state (Some (example_data None None))) = EvalReturns ?data"
    by (simp add: get_external_sensor_execution_data_def)
  have none: "run_requests ?data = []" "dagster_run_reactions ?data = []"
    by (simp_all add: example_execution_data_def)
  have c: "data_cursor ?data = Some ''c1''"
    by (simp add: example_execution_data_def)
  note T = skip_commits_cursor [OF example_stored(1,2,3,4) ev none,
      of "example_state None" "[(FAILURE, 7)]" "\<lambda>r. None" "\<lambda>rr. []" 1000 1001]
  from T c have y: "fst (example_tick (\<lambda>a b c. EvalReturns ?data)) = TickYielded None"
    and p: "persisted_cursor (snd (snd (example_tick (\<lambda>a b c. EvalReturns ?data)))) example_sensor
      = Some ''c1''"
    unfolding example_tick_def by auto
  have w: "map tick_status (written_ticks (journal
        (snd (snd (example_tick (\<lambda>a b c. EvalReturns ?data)))))) = [SKIPPED]"
    by (simp add: example_defs)
  show ?thesis
    using example_stored(1,4) none y p w by blast
qed

text \<open>C9 as stated fails: the evaluation returns no run requests, no reactions and the empty
  string as cursor; the tick is written in \<open>SKIPPED\<close> and the persisted cursor, \<open>c0\<close> before,
  is \<open>None\<close> after, not the empty string.\<close>

theorem skip_empty_cursor_counterexample:
  "run_requests (example_execution_data [] (Some [])) = []
   \<and> dagster_run_reactions (example_execution_data [] (Some [])) = []
   \<and> data_cursor (example_execution_data [] (Some [])) = Some []
   \<and> map tick_status (written_ticks (journal (snd (snd (example_tick
        (\<lambda>a b c. EvalReturns (example_execution_data [] (Some []))))))))
       = [SKIPPED]
   \<and> persisted_cursor (example_instance (example_state (Some (example_data None None))) [])
        example_sensor = Some ''c0''
   \<and> persisted_cursor (snd (snd (example_tick
        (\<lambda>a b c. EvalReturns (example_execution_data [] (Some []))))))
        example_sensor = None"
  by (simp add: example_defs)

subsection \<open>Interrupts\<close>

lemma exit_ctx_interrupt:
  "exit_ctx c inst (Some KeyboardInterrupt) now = (c, Some KeyboardInterrupt, inst)"
  by (simp add: exit_ctx_def)

lemma process_tick_generator_interrupt:
  assumes stored: "get_instigator_state inst (external_origin_id s) (selector_id s) = Some st"
    and free: "\<not> is_under_min_interval gate st s"
    and raises: "get_external_sensor_execution_data evaluate st = EvalRaises KeyboardInterrupt"
  shows "fst (process_tick_generator inst s cached settings evaluate launch resolve_stale
                now gate now_exit) = TickRaised KeyboardInterrupt"
    and "journal (snd (snd (process_tick_generator inst s cached settings evaluate launch
                              resolve_stale now gate now_exit)))
           = journal inst @ [CreateTick (started_tick inst s st now)]"
proof -
  let ?t = "started_tick inst s st now"
  let ?inst2 = "record_call (CreateTick ?t)
        ((mark_sensor_state_for_tick inst s st now)\<lparr>next_tick_id := Suc (next_tick_id inst)\<rparr>)"
  let ?ctx = "init_context s ?t settings"
  have ev: "evaluate_sensor ?ctx ?inst2 s st evaluate launch resolve_stale
      = (Some KeyboardInterrupt, [], ?ctx, ?inst2)"
    using raises by (simp add: evaluate_sensor_def)
  have p: "process_tick_generator inst s cached settings evaluate launch resolve_stale now gate now_exit
      = (TickRaised KeyboardInterrupt, [], ?inst2)"
    unfolding process_tick_generator_claimed[OF stored free] create_tick_after_mark
    by (simp add: ev exit_ctx_interrupt)
  show "fst (process_tick_generator inst s cached settings evaluate launch resolve_stale
                now gate now_exit) = TickRaised KeyboardInterrupt"
    using p by simp
  show "journal (snd (snd (process_tick_generator inst s cached settings evaluate launch
                              resolve_stale now gate now_exit)))
           = journal inst @ [CreateTick (started_tick inst s st now)]"
    using p by (simp add: mark_sensor_state_for_tick_def)
qed

text \<open>
  C7, as the code has it. \<open>exit_ctx\<close> returns at once on \<^verbatim>\<open>KeyboardInterrupt\<close>: the
  context and the instance are as they were and the interrupt goes on. So when the evaluation
  call raises \<^verbatim>\<open>KeyboardInterrupt\<close>, the interrupt leaves \<open>process_tick_generator\<close>, the
  journal gains the creation of the tick and nothing else (no write of the tick, no error
  logged), and the tick stays in storage as it was created, in \<open>STARTED\<close>.
\<close>

theorem interrupt_propagates_unrecorded:
  assumes stored: "get_instigator_state inst (external_origin_id s) (selector_id s) = Some st"
    and free: "\<not> is_under_min_interval gate st s"
    and raises: "get_external_sensor_execution_data evaluate st = EvalRaises KeyboardInterrupt"
  shows "fst (process_tick_generator inst s cached settings evaluate launch resolve_stale
                now gate now_exit) = TickRaised KeyboardInterrupt
    \<and> journal (snd (snd (process_tick_generator inst s cached settings evaluate launch
                            resolve_stale now gate now_exit)))
        = journal inst @ [CreateTick (started_tick inst s st now)]
    \<and> tick_status (started_tick inst s st now) = STARTED
    \<and> written_ticks (journal (snd (snd (process_tick_generator inst s cached settings evaluate
                                           launch resolve_stale now gate now_exit))))
        = written_ticks (journal inst)
    \<and> exit_ctx c inst' (Some KeyboardInterrupt) now' = (c, Some KeyboardInterrupt, inst')"
  using process_tick_generator_interrupt[OF stored free raises] exit_ctx_interrupt
  by (simp add: written_ticks_append started_tick_def)

theorem interrupt_propagates_unrecorded_witness:
  "get_instigator_state (example_instance (example_state (Some (example_data None None))) [])
       (external_origin_id example_sensor) (selector_id example_sensor)
     = Some (example_state (Some (example_data None None)))
   \<and> \<not> is_under_min_interval 1000 (example_state (Some (example_data None None))) example_sensor
   \<and> fst (example_tick (\<lambda>a b c. EvalRaises KeyboardInterrupt)) = TickRaised KeyboardInterrupt
   \<and> journal (snd (snd (example_tick (\<lambda>a b c. EvalRaises KeyboardInterrupt))))
       = [CreateTick (started_tick
            (example_instance (example_state (Some (example_data None None))) [])
            example_sensor (example_state (Some (example_data None None))) 1000)]"
proof -
  have raises: "get_external_sensor_execution_data (\<lambda>a b c. EvalRaises KeyboardInterrupt)
      (example_state (Some (example_data None None))) = EvalRaises KeyboardInterrupt"
    by (simp add: get_external_sensor_execution_data_def)
  have j: "journal (example_instance (example_state (Some (example_data None None))) []) = []"
    by (simp add: example_instance_def)
  note T = interrupt_propagates_unrecorded [OF example_stored(1) example_stored(4) raises,
      of "example_state None" "[(FAILURE, 7)]" "\<lambda>r. None" "\<lambda>rr. []" 1000 1001]
  show ?thesis
    using example_stored(1,4) T j unfolding example_tick_def by simp
qed

text \<open>C7 as stated fails: the evaluation raises \<^verbatim>\<open>KeyboardInterrupt\<close>; the interrupt
  propagates and the tick in progress is never written.\<close>

theorem interrupt_tick_not_written_counterexample:
  "fst (example_tick (\<lambda>a b c. EvalRaises KeyboardInterrupt)) = TickRaised KeyboardInterrupt
   \<and> written_ticks (journal (snd (snd (example_tick (\<lambda>a b c. EvalRaises KeyboardInterrupt))))) = []"
  by (simp add: example_defs)

subsection \<open>The cursor on failure and on success\<close>


lemma persisted_data_next_tick_id [simp]:
  "persisted_data (inst\<lparr>next_tick_id := n\<rparr>) s = persisted_data inst s"
  by (simp add: persisted_data_def get_instigator_state_def)






subsection \<open>Dynamic partitions\<close>




lemma dynamic_partitions_delete_loop:
  "dynamic_partitions (delete_dynamic_partitions_loop inst name ks)
     = (dynamic_partitions inst)(name := dynamic_partitions inst name - set ks)"
  by (induction ks arbitrary: inst) (auto simp: delete_dynamic_partition_def fun_eq_iff)

lemma has_dynamic_partition_eq:
  "has_dynamic_partition inst name = (\<lambda>k. k \<in> dynamic_partitions inst name)"
  by (simp add: has_dynamic_partition_def fun_eq_iff)

lemma add_nonexistent_partitions:
  "dynamic_partitions
     (if filter (\<lambda>k. k \<notin> dynamic_partitions inst name) ks \<noteq> []
      then add_dynamic_partitions inst name (filter (\<lambda>k. k \<notin> dynamic_partitions inst name) ks)
      else inst)
   = (dynamic_partitions inst)(name := dynamic_partitions inst name \<union> set ks)"
proof (cases "filter (\<lambda>k. k \<notin> dynamic_partitions inst name) ks = []")
  case True
  then have "set ks \<subseteq> dynamic_partitions inst name"
    by (auto simp: filter_empty_conv)
  then have "dynamic_partitions inst name \<union> set ks = dynamic_partitions inst name"
    by auto
  then show ?thesis using True by simp
next
  case False
  have "dynamic_partitions inst name \<union> set (filter (\<lambda>k. k \<notin> dynamic_partitions inst name) ks)
      = dynamic_partitions inst name \<union> set ks"
    by auto
  then show ?thesis using False by (simp add: add_dynamic_partitions_def)
qed

lemma delete_existent_partitions:
  "dynamic_partitions
     (if filter (\<lambda>k. k \<in> dynamic_partitions inst name) ks \<noteq> []
      then delete_dynamic_partitions_loop inst name
             (filter (\<lambda>k. k \<in> dynamic_partitions inst name) ks)
      else inst)
   = (dynamic_partitions inst)(name := dynamic_partitions inst name - set ks)"
proof (cases "filter (\<lambda>k. k \<in> dynamic_partitions inst name) ks = []")
  case True
  then have "dynamic_partitions inst name \<inter> set ks = {}"
    by (auto simp: filter_empty_conv)
  then have "dynamic_partitions inst name - set ks = dynamic_partitions inst name"
    by auto
  then show ?thesis using True by simp
next
  case False
  have "dynamic_partitions inst name - set (filter (\<lambda>k. k \<in> dynamic_partitions inst name) ks)
      = dynamic_partitions inst name - set ks"
    by auto
  then show ?thesis using False by (simp add: dynamic_partitions_delete_loop)
qed

lemma apply_add_request:
  assumes "apply_dynamic_partitions_request (AddDynamicPartitionsRequest name ks) (c, inst) = (c1, inst1)"
  shows "dynamic_partitions inst1
         = (dynamic_partitions inst)(name := dynamic_partitions inst name \<union> set ks)"
    and "dynamic_partitions_request_results (ctx_tick c1)
         = dynamic_partitions_request_results (ctx_tick c)
           @ [\<lparr>result_partitions_def_name = name,
               added_partitions = Some (filter (\<lambda>k. k \<notin> dynamic_partitions inst name) ks),
               deleted_partitions = None,
               skipped_partitions = filter (\<lambda>k. k \<in> dynamic_partitions inst name) ks\<rparr>]"
proof -
  have i: "inst1 = (if filter (\<lambda>k. k \<notin> dynamic_partitions inst name) ks \<noteq> []
      then add_dynamic_partitions inst name (filter (\<lambda>k. k \<notin> dynamic_partitions inst name) ks)
      else inst)"
    using assms by (simp add: Let_def has_dynamic_partition_eq)
  show "dynamic_partitions inst1
         = (dynamic_partitions inst)(name := dynamic_partitions inst name \<union> set ks)"
    unfolding i by (rule add_nonexistent_partitions)
  show "dynamic_partitions_request_results (ctx_tick c1)
         = dynamic_partitions_request_results (ctx_tick c)
           @ [\<lparr>result_partitions_def_name = name,
               added_partitions = Some (filter (\<lambda>k. k \<notin> dynamic_partitions inst name) ks),
               deleted_partitions = None,
               skipped_partitions = filter (\<lambda>k. k \<in> dynamic_partitions inst name) ks\<rparr>]"
    using assms
    by (auto simp: Let_def has_dynamic_partition_eq add_dynamic_partitions_request_result_def
          with_dynamic_partitions_request_result_def)
qed

lemma apply_delete_request:
  assumes "apply_dynamic_partitions_request (DeleteDynamicPartitionsRequest name ks) (c, inst) = (c1, inst1)"
  shows "dynamic_partitions inst1
         = (dynamic_partitions inst)(name := dynamic_partitions inst name - set ks)"
    and "dynamic_partitions_request_results (ctx_tick c1)
         = dynamic_partitions_request_results (ctx_tick c)
           @ [\<lparr>result_partitions_def_name = name,
               added_partitions = None,
               deleted_partitions = Some (filter (\<lambda>k. k \<in> dynamic_partitions inst name) ks),
               skipped_partitions = filter (\<lambda>k. k \<notin> dynamic_partitions inst name) ks\<rparr>]"
proof -
  have i: "inst1 = (if filter (\<lambda>k. k \<in> dynamic_partitions inst name) ks \<noteq> []
      then delete_dynamic_partitions_loop inst name
             (filter (\<lambda>k. k \<in> dynamic_partitions inst name) ks)
      else inst)"
    using assms by (simp add: Let_def has_dynamic_partition_eq)
  show "dynamic_partitions inst1
         = (dynamic_partitions inst)(name := dynamic_partitions inst name - set ks)"
    unfolding i by (rule delete_existent_partitions)
  show "dynamic_partitions_request_results (ctx_tick c1)
         = dynamic_partitions_request_results (ctx_tick c)
           @ [\<lparr>result_partitions_def_name = name,
               added_partitions = None,
               deleted_partitions = Some (filter (\<lambda>k. k \<in> dynamic_partitions inst name) ks),
               skipped_partitions = filter (\<lambda>k. k \<notin> dynamic_partitions inst name) ks\<rparr>]"
    using assms
    by (auto simp: Let_def has_dynamic_partition_eq add_dynamic_partitions_request_result_def
          with_dynamic_partitions_request_result_def)
qed

text \<open>
  C8. An add request leaves in the registry the keys that were there and the requested keys
  that were not, reports the latter as added and the requested keys already there as skipped;
  a delete request removes the requested keys that were there, reports them as deleted and the
  requested keys not there as skipped; other partitions definitions are untouched, neither
  request can fail, and the same request applied again reports every key as skipped and leaves
  the registry as it is.
\<close>

theorem dynamic_partitions_requests_idempotent:
  assumes add: "apply_dynamic_partitions_request (AddDynamicPartitionsRequest name ks) (c, inst)
                  = (ca, insta)"
    and add_again: "apply_dynamic_partitions_request (AddDynamicPartitionsRequest name ks) (ca, insta)
                  = (ca', insta')"
    and del: "apply_dynamic_partitions_request (DeleteDynamicPartitionsRequest name ks) (c, inst)
                  = (cd, instd)"
    and del_again: "apply_dynamic_partitions_request (DeleteDynamicPartitionsRequest name ks) (cd, instd)
                  = (cd', instd')"
  shows "dynamic_partitions insta name
           = dynamic_partitions inst name \<union> {k \<in> set ks. k \<notin> dynamic_partitions inst name}
    \<and> (\<forall>n. n \<noteq> name \<longrightarrow> dynamic_partitions insta n = dynamic_partitions inst n)
    \<and> dynamic_partitions_request_results (ctx_tick ca)
         = dynamic_partitions_request_results (ctx_tick c)
           @ [\<lparr>result_partitions_def_name = name,
               added_partitions = Some (filter (\<lambda>k. k \<notin> dynamic_partitions inst name) ks),
               deleted_partitions = None,
               skipped_partitions = filter (\<lambda>k. k \<in> dynamic_partitions inst name) ks\<rparr>]
    \<and> dynamic_partitions insta' = dynamic_partitions insta
    \<and> dynamic_partitions_request_results (ctx_tick ca')
         = dynamic_partitions_request_results (ctx_tick ca)
           @ [\<lparr>result_partitions_def_name = name, added_partitions = Some [],
               deleted_partitions = None, skipped_partitions = ks\<rparr>]
    \<and> dynamic_partitions instd name
           = dynamic_partitions inst name - {k \<in> set ks. k \<in> dynamic_partitions inst name}
    \<and> (\<forall>n. n \<noteq> name \<longrightarrow> dynamic_partitions instd n = dynamic_partitions inst n)
    \<and> dynamic_partitions_request_results (ctx_tick cd)
         = dynamic_partitions_request_results (ctx_tick c)
           @ [\<lparr>result_partitions_def_name = name, added_partitions = None,
               deleted_partitions = Some (filter (\<lambda>k. k \<in> dynamic_partitions inst name) ks),
               skipped_partitions = filter (\<lambda>k. k \<notin> dynamic_partitions inst name) ks\<rparr>]
    \<and> dynamic_partitions instd' = dynamic_partitions instd
    \<and> dynamic_partitions_request_results (ctx_tick cd')
         = dynamic_partitions_request_results (ctx_tick cd)
           @ [\<lparr>result_partitions_def_name = name, added_partitions = None,
               deleted_partitions = Some [], skipped_partitions = ks\<rparr>]"
proof -
  note a1 = apply_add_request[OF add] and a2 = apply_add_request[OF add_again]
    and d1 = apply_delete_request[OF del] and d2 = apply_delete_request[OF del_again]
  have fa: "filter (\<lambda>k. k \<notin> dynamic_partitions insta name) ks = []"
    "filter (\<lambda>k. k \<in> dynamic_partitions insta name) ks = ks"
    using a1 by (simp_all add: filter_empty_conv)
  have fd: "filter (\<lambda>k. k \<in> dynamic_partitions instd name) ks = []"
    "filter (\<lambda>k. k \<notin> dynamic_partitions instd name) ks = ks"
    using d1 by (simp_all add: filter_empty_conv)
  have "dynamic_partitions insta name
           = dynamic_partitions inst name \<union> {k \<in> set ks. k \<notin> dynamic_partitions inst name}"
    using a1 by auto
  moreover have "\<forall>n. n \<noteq> name \<longrightarrow> dynamic_partitions insta n = dynamic_partitions inst n"
    using a1 by simp
  moreover have "dynamic_partitions insta' = dynamic_partitions insta"
    using a1 a2 by (auto simp: fun_eq_iff)
  moreover have "dynamic_partitions instd name
           = dynamic_partitions inst name - {k \<in> set ks. k \<in> dynamic_partitions inst name}"
    using d1 by auto
  moreover have "\<forall>n. n \<noteq> name \<longrightarrow> dynamic_partitions instd n = dynamic_partitions inst n"
    using d1 by simp
  moreover have "dynamic_partitions instd' = dynamic_partitions instd"
    using d1 d2 by (auto simp: fun_eq_iff)
  ultimately show ?thesis
    using a1 a2 d1 d2 fa fd by simp
qed

theorem dynamic_partitions_requests_idempotent_witness:
  "dynamic_partitions
     (snd (apply_dynamic_partitions_request (AddDynamicPartitionsRequest ''colors'' [''red'', ''blue''])
        (example_context, example_store\<lparr>dynamic_partitions := (\<lambda>n. {''red''})\<rparr>))) ''colors''
     = {''red'', ''blue''}
   \<and> map skipped_partitions (dynamic_partitions_request_results (ctx_tick
        (fst (apply_dynamic_partitions_request (AddDynamicPartitionsRequest ''colors'' [''red'', ''blue''])
           (example_context, example_store\<lparr>dynamic_partitions := (\<lambda>n. {''red''})\<rparr>)))))
     = [[''red'']]
   \<and> dynamic_partitions
     (snd (apply_dynamic_partitions_request (DeleteDynamicPartitionsRequest ''colors'' [''red'', ''blue''])
        (example_context, example_store\<lparr>dynamic_partitions := (\<lambda>n. {''red''})\<rparr>))) ''colors''
     = {}"
proof -
  let ?ci = "(example_context, example_store\<lparr>dynamic_partitions := (\<lambda>n. {''red''})\<rparr>)"
  let ?add = "AddDynamicPartitionsRequest ''colors'' [''red'', ''blue'']"
  let ?del = "DeleteDynamicPartitionsRequest ''colors'' [''red'', ''blue'']"
  let ?a = "apply_dynamic_partitions_request ?add ?ci"
  let ?d = "apply_dynamic_partitions_request ?del ?ci"
  let ?a' = "apply_dynamic_partitions_request ?add (fst ?a, snd ?a)"
  let ?d' = "apply_dynamic_partitions_request ?del (fst ?d, snd ?d)"
  have h: "?a = (fst ?a, snd ?a)" "?a' = (fst ?a', snd ?a')" "?d = (fst ?d, snd ?d)"
    "?d' = (fst ?d', snd ?d')"
    by simp_all
  note T = dynamic_partitions_requests_idempotent [OF h]
  have r: "dynamic_partitions_request_results (ctx_tick example_context) = []"
    by (simp add: example_context_def init_context_def started_tick_def)
  from T have "dynamic_partitions (snd ?a) ''colors'' = {''red''} \<union> {k \<in> {''red'', ''blue''}. k \<noteq> ''red''}"
    by simp
  moreover have "{''red''} \<union> {k \<in> {''red'', ''blue''}. k \<noteq> ''red''} = {''red'', ''blue''}"
    by auto
  moreover from T r have "map skipped_partitions (dynamic_partitions_request_results (ctx_tick (fst ?a)))
      = [[''red'']]"
    by simp
  moreover from T have "dynamic_partitions (snd ?d) ''colors'' = {''red''} - {k \<in> {''red'', ''blue''}. k = ''red''}"
    by simp
  moreover have "{''red''} - {k \<in> {''red'', ''blue''}. k = ''red''} = ({}::string set)"
    by auto
  ultimately show ?thesis by simp
qed




subsection \<open>Run deduplication\<close>





















subsection \<open>Submission of the run requests of a tick\<close>




lemma stale_filtered_job_names:
  "rr \<in> set (stale_filtered resolve_stale rrs)
   \<Longrightarrow> \<exists>raw\<in>set rrs. request_job_name rr = request_job_name raw \<and> run_key rr = run_key raw"
  by (induction rrs) (auto split: if_splits)





end
